theory Spec2Isabelle
  imports
    Complex_Main
    "HOL-Library.AList"
    "HOL-Library.Char_ord"
    "HOL-Library.List_Lexorder"
    "HOL-Library.Product_Lexorder"
begin

section \<open>Data model of \<open>sbems/analytics/anomaly_detector.py\<close>\<close>

text \<open>
  Python floats are modelled as \<^typ>\<open>real\<close> (finite values, exact arithmetic). A
  \<open>datetime\<close> is the number of microseconds since \<open>datetime.min\<close>
  (0001-01-01 00:00:00), so that comparison, subtraction and the hour of the day are
  integer arithmetic.
\<close>

type_synonym datetime = int

definition hour :: "datetime \<Rightarrow> int" where
  "hour t = (t div 3600000000) mod 24"

definition total_seconds :: "int \<Rightarrow> real" where
  "total_seconds delta = real_of_int delta / 1000000"

datatype py_error =
    KeyError string
  | IndexError
  | ValueError
  | ZeroDivisionError
  | OverflowError

datatype AnomalyType =
    ENERGY_SPIKE
  | EQUIPMENT_FAILURE
  | EFFICIENCY_DROP
  | NETWORK_ISOLATION
  | SEASONAL_DEVIATION
  | OCCUPANCY_MISMATCH
  | UNKNOWN

fun AnomalyType_value :: "AnomalyType \<Rightarrow> string" where
  "AnomalyType_value ENERGY_SPIKE = ''energy_spike''"
| "AnomalyType_value EQUIPMENT_FAILURE = ''equipment_failure''"
| "AnomalyType_value EFFICIENCY_DROP = ''efficiency_drop''"
| "AnomalyType_value NETWORK_ISOLATION = ''network_isolation''"
| "AnomalyType_value SEASONAL_DEVIATION = ''seasonal_deviation''"
| "AnomalyType_value OCCUPANCY_MISMATCH = ''occupancy_mismatch''"
| "AnomalyType_value UNKNOWN = ''unknown''"

text \<open>Iterating over the enum class yields its members in definition order.\<close>

definition AnomalyType_members :: "AnomalyType list" where
  "AnomalyType_members =
     [ENERGY_SPIKE, EQUIPMENT_FAILURE, EFFICIENCY_DROP, NETWORK_ISOLATION,
      SEASONAL_DEVIATION, OCCUPANCY_MISMATCH, UNKNOWN]"

datatype SeverityLevel = LOW | MEDIUM | HIGH | CRITICAL

fun SeverityLevel_value :: "SeverityLevel \<Rightarrow> string" where
  "SeverityLevel_value LOW = ''low''"
| "SeverityLevel_value MEDIUM = ''medium''"
| "SeverityLevel_value HIGH = ''high''"
| "SeverityLevel_value CRITICAL = ''critical''"

definition SeverityLevel_members :: "SeverityLevel list" where
  "SeverityLevel_members = [LOW, MEDIUM, HIGH, CRITICAL]"

text \<open>
  A reading is the dict built by \<open>add_sensor_reading\<close>; its \<open>metadata\<close> entry is
  never read by the detector and is left out.
\<close>

record Reading =
  r_timestamp :: datetime
  r_value :: real
  r_sensor_type :: string
  r_zone_id :: "string option"

text \<open>
  The dataclass \<open>Anomaly\<close>. The description keeps the fixed part of the source's
  f-string (the formatted number is repeated in \<open>metadata\<close>); metadata values are
  numbers or strings.
\<close>

datatype meta_value = MNum real | MStr string

record Anomaly =
  sensor_id :: string
  anomaly_type :: AnomalyType
  severity :: SeverityLevel
  confidence :: real
  timestamp :: datetime
  a_value :: real
  expected_range :: "real \<times> real"
  description :: string
  recommendations :: "string list"
  metadata :: "(string \<times> meta_value) list"

text \<open>
  The \<open>networkx\<close> graph: its nodes in insertion order and its undirected edges.
\<close>

record Graph =
  nodes :: "string list"
  edges :: "(string \<times> string) list"

definition degree :: "Graph \<Rightarrow> string \<Rightarrow> nat" where
  "degree g n = length (filter (\<lambda>e. fst e = n) (edges g)) + length (filter (\<lambda>e. snd e = n) (edges g))"

text \<open>
  The detector object. \<open>sensor_data\<close> is a dict in insertion order (an association
  list with distinct keys). \<open>isolation_forest\<close> stands for scikit-learn's model: given
  the window's values it returns, per point, the label of \<open>fit_predict\<close> (\<open>-1\<close> for an
  outlier) and the score of \<open>decision_function\<close>.
\<close>

record AnomalyDetector =
  window_size :: int
  contamination :: real
  min_samples_for_detection :: int
  network_analysis :: bool
  isolation_forest :: "real list \<Rightarrow> (int \<times> real) list"
  sensor_data :: "(string \<times> Reading list) list"
  detected_anomalies :: "Anomaly list"
  network_graph :: "Graph option"
  energy_spike_threshold :: real
  efficiency_drop_threshold :: real
  occupancy_energy_ratio_threshold :: real

definition AnomalyDetector_init ::
  "(real list \<Rightarrow> (int \<times> real) list) \<Rightarrow> int \<Rightarrow> real \<Rightarrow> int \<Rightarrow> bool \<Rightarrow> AnomalyDetector" where
  "AnomalyDetector_init forest ws cont min_samples net =
     \<lparr> window_size = ws,
       contamination = cont,
       min_samples_for_detection = min_samples,
       network_analysis = net,
       isolation_forest = forest,
       sensor_data = [],
       detected_anomalies = [],
       network_graph = None,
       energy_spike_threshold = 2.0,
       efficiency_drop_threshold = 0.3,
       occupancy_energy_ratio_threshold = 0.5 \<rparr>"

text \<open>The constructor called with its default arguments.\<close>

definition AnomalyDetector_default :: "(real list \<Rightarrow> (int \<times> real) list) \<Rightarrow> AnomalyDetector" where
  "AnomalyDetector_default forest = AnomalyDetector_init forest 50 0.05 20 True"

section \<open>The per-sensor window: \<open>add_sensor_reading\<close>\<close>

text \<open>
  \<open>stored d sid\<close> is the list held under \<open>sid\<close>, empty when the key is absent.
\<close>

definition stored :: "AnomalyDetector \<Rightarrow> string \<Rightarrow> Reading list" where
  "stored d sid = (case map_of (sensor_data d) sid of None \<Rightarrow> [] | Some rs \<Rightarrow> rs)"

text \<open>
  The arguments of one call: sensor id, value, optional timestamp, sensor type and
  zone id; \<open>now\<close> is what \<open>datetime.now()\<close> returns during the call.
\<close>

record add_call =
  c_now :: datetime
  c_sensor_id :: string
  c_value :: real
  c_timestamp :: "datetime option"
  c_sensor_type :: string
  c_zone_id :: "string option"

definition make_reading :: "add_call \<Rightarrow> Reading" where
  "make_reading c =
     \<lparr> r_timestamp = (case c_timestamp c of None \<Rightarrow> c_now c | Some t \<Rightarrow> t),
       r_value = c_value c,
       r_sensor_type = c_sensor_type c,
       r_zone_id = c_zone_id c \<rparr>"

definition add_sensor_reading :: "AnomalyDetector \<Rightarrow> add_call \<Rightarrow> AnomalyDetector" where
  "add_sensor_reading d c =
     (let reading = make_reading c;
          sid = c_sensor_id c;
          data1 = (if map_of (sensor_data d) sid = None
                   then AList.update sid [] (sensor_data d) else sensor_data d);
          appended = (case map_of data1 sid of None \<Rightarrow> [] | Some rs \<Rightarrow> rs) @ [reading];
          data2 = AList.update sid appended data1;
          data3 = (if int (length appended) > window_size d
                   then AList.update sid (tl appended) data2 else data2)
      in d\<lparr>sensor_data := data3\<rparr>)"

text \<open>A sequence of calls, applied from left to right.\<close>

definition add_sensor_readings :: "AnomalyDetector \<Rightarrow> add_call list \<Rightarrow> AnomalyDetector" where
  "add_sensor_readings d cs = foldl add_sensor_reading d cs"

text \<open>The readings a call sequence adds for one sensor, in call order.\<close>

definition readings_for :: "string \<Rightarrow> add_call list \<Rightarrow> Reading list" where
  "readings_for sid cs = map make_reading (filter (\<lambda>c. c_sensor_id c = sid) cs)"

text \<open>Python's \<open>xs[-n:]\<close> and \<open>xs[:-n]\<close> for \<open>n > 0\<close>.\<close>

definition last_n :: "nat \<Rightarrow> 'a list \<Rightarrow> 'a list" where
  "last_n n xs = drop (length xs - n) xs"

definition but_last_n :: "nat \<Rightarrow> 'a list \<Rightarrow> 'a list" where
  "but_last_n n xs = take (length xs - n) xs"

section \<open>NumPy and pandas statistics\<close>

text \<open>
  \<open>np.mean\<close>, \<open>np.std\<close> (population standard deviation), the sample standard
  deviation of a pandas group (undefined, \<open>NaN\<close>, for fewer than two values),
  \<open>fillna\<close>, and \<open>np.corrcoef(x, y)[0, 1]\<close>: the covariance divided by both
  standard deviations and clipped to \<open>[-1, 1]\<close>, \<open>NaN\<close> (here \<open>None\<close>) when a
  variance is zero.
\<close>

definition np_mean :: "real list \<Rightarrow> real" where
  "np_mean xs = sum_list xs / real (length xs)"

definition np_std :: "real list \<Rightarrow> real" where
  "np_std xs = sqrt (np_mean (map (\<lambda>x. (x - np_mean xs)\<^sup>2) xs))"

definition pd_std :: "real list \<Rightarrow> real option" where
  "pd_std xs =
     (if length xs \<le> 1 then None
      else Some (sqrt (sum_list (map (\<lambda>x. (x - np_mean xs)\<^sup>2) xs) / (real (length xs) - 1))))"

definition fillna :: "real \<Rightarrow> real option \<Rightarrow> real" where
  "fillna v x = (case x of None \<Rightarrow> v | Some y \<Rightarrow> y)"

definition np_cov :: "real list \<Rightarrow> real list \<Rightarrow> real" where
  "np_cov xs ys =
     sum_list (map2 (\<lambda>x y. (x - np_mean xs) * (y - np_mean ys)) xs ys) / (real (length xs) - 1)"

definition np_corrcoef :: "real list \<Rightarrow> real list \<Rightarrow> real option" where
  "np_corrcoef xs ys =
     (let cxx = np_cov xs xs; cyy = np_cov ys ys; cxy = np_cov xs ys
      in if cxx = 0 \<or> cyy = 0 then None
         else Some (max (- 1) (min 1 (cxy / sqrt cxx / sqrt cyy))))"

text \<open>
  A float division whose divisor the source guards: a zero divisor is an error of the
  model, so that "no division by zero" is a statement about the result.
\<close>

definition fdiv :: "real \<Rightarrow> real \<Rightarrow> py_error + real" where
  "fdiv x y = (if y = 0 then Inl ZeroDivisionError else Inr (x / y))"

section \<open>Helpers of the detector\<close>

text \<open>\<open>self.sensor_data[sensor_id]\<close> and \<open>readings[-1]\<close>.\<close>

definition lookup :: "AnomalyDetector \<Rightarrow> string \<Rightarrow> py_error + Reading list" where
  "lookup d sid =
     (case map_of (sensor_data d) sid of None \<Rightarrow> Inl (KeyError sid) | Some rs \<Rightarrow> Inr rs)"

definition latest :: "Reading list \<Rightarrow> py_error + Reading" where
  "latest rs = (if rs = [] then Inl IndexError else Inr (last rs))"

definition is_energy_sensor :: "string \<Rightarrow> bool" where
  "is_energy_sensor st =
     (st \<in> set [''energy_power'', ''energy_voltage'', ''energy_current'', ''energy_total''])"

definition calculate_severity :: "real \<Rightarrow> SeverityLevel" where
  "calculate_severity conf =
     (if conf > 0.8 then CRITICAL
      else if conf > 0.6 then HIGH
      else if conf > 0.4 then MEDIUM
      else LOW)"

definition calculate_expected_range :: "Reading list \<Rightarrow> real \<times> real" where
  "calculate_expected_range readings =
     (let vals = map r_value readings; mean = np_mean vals; std = np_std vals
      in (mean - 2 * std, mean + 2 * std))"

section \<open>Isolation forest\<close>

text \<open>
  scikit-learn refuses an array with no sample (\<open>ValueError\<close>); otherwise the labels
  and scores are zipped with the readings.
\<close>

definition isolation_anomaly :: "string \<Rightarrow> Reading list \<Rightarrow> real \<Rightarrow> Reading \<Rightarrow> Anomaly" where
  "isolation_anomaly sid readings score reading =
     (let conf = min 1.0 (\<bar>score\<bar> / 0.5)
      in \<lparr> sensor_id = sid,
           anomaly_type = UNKNOWN,
           severity = calculate_severity conf,
           confidence = conf,
           timestamp = r_timestamp reading,
           a_value = r_value reading,
           expected_range = calculate_expected_range readings,
           description = ''Isolation Forest detected anomaly'',
           recommendations = [''Investigate sensor reading'', ''Check equipment status''],
           metadata = [(''algorithm'', MStr ''isolation_forest''), (''score'', MNum score)] \<rparr>)"

definition detect_isolation_forest_anomalies ::
  "AnomalyDetector \<Rightarrow> string \<Rightarrow> py_error + Anomaly list" where
  "detect_isolation_forest_anomalies d sid =
     (case lookup d sid of
        Inl e \<Rightarrow> Inl e
      | Inr readings \<Rightarrow>
          if readings = [] then Inl ValueError
          else Inr (concat (map
                 (\<lambda>((prediction, score), reading).
                     if prediction = - 1 then [isolation_anomaly sid readings score reading] else [])
                 (zip (isolation_forest d (map r_value readings)) readings))))"

section \<open>Energy spike\<close>

definition energy_anomaly ::
  "string \<Rightarrow> Reading \<Rightarrow> real \<Rightarrow> real \<Rightarrow> real \<Rightarrow> Anomaly" where
  "energy_anomaly sid latest_reading z_score historical_mean historical_std =
     \<lparr> sensor_id = sid,
       anomaly_type = ENERGY_SPIKE,
       severity = (if \<bar>z_score\<bar> > 3.0 then HIGH else MEDIUM),
       confidence = min 1.0 (\<bar>z_score\<bar> / 3.0),
       timestamp = r_timestamp latest_reading,
       a_value = r_value latest_reading,
       expected_range = (historical_mean - 2 * historical_std, historical_mean + 2 * historical_std),
       description = ''Energy spike detected'',
       recommendations = [''Check for equipment malfunction'', ''Verify load connections'',
                          ''Investigate unusual usage patterns''],
       metadata = [(''z_score'', MNum z_score), (''historical_mean'', MNum historical_mean)] \<rparr>"

definition detect_energy_anomalies ::
  "AnomalyDetector \<Rightarrow> string \<Rightarrow> py_error + Anomaly list" where
  "detect_energy_anomalies d sid =
     (case lookup d sid of
        Inl e \<Rightarrow> Inl e
      | Inr readings \<Rightarrow>
     (case latest readings of
        Inl e \<Rightarrow> Inl e
      | Inr latest_reading \<Rightarrow>
          if \<not> is_energy_sensor (r_sensor_type latest_reading) then Inr []
          else
            let vals = map r_value readings in
            if length vals \<ge> 10 then
              let recent_mean = np_mean (last_n 10 vals);
                  historical_mean =
                    (if length vals > 10 then np_mean (but_last_n 10 vals) else recent_mean);
                  historical_std =
                    (if length vals > 10 then np_std (but_last_n 10 vals) else np_std vals)
              in if historical_std > 0 then
                   (case fdiv (recent_mean - historical_mean) historical_std of
                      Inl e \<Rightarrow> Inl e
                    | Inr z_score \<Rightarrow>
                        if \<bar>z_score\<bar> > energy_spike_threshold d
                        then Inr [energy_anomaly sid latest_reading z_score historical_mean historical_std]
                        else Inr [])
                 else Inr []
            else Inr []))"

section \<open>Temporal pattern\<close>

text \<open>
  \<open>df.groupby('hour')['value'].agg(['mean', 'std']).fillna(0)\<close>: one row per hour
  that occurs in the window, in ascending order, with the mean and the sample standard
  deviation of that hour's values.
\<close>

definition hour_values :: "int \<Rightarrow> Reading list \<Rightarrow> real list" where
  "hour_values h readings = map r_value (filter (\<lambda>r. hour (r_timestamp r) = h) readings)"

definition hourly_patterns :: "Reading list \<Rightarrow> (int \<times> real \<times> real) list" where
  "hourly_patterns readings =
     map (\<lambda>h. (h, np_mean (hour_values h readings), fillna 0 (pd_std (hour_values h readings))))
         (sort (remdups (map (\<lambda>r. hour (r_timestamp r)) readings)))"

definition temporal_anomaly :: "string \<Rightarrow> Reading \<Rightarrow> real \<Rightarrow> real \<Rightarrow> real \<Rightarrow> Anomaly" where
  "temporal_anomaly sid latest_reading deviation expected_mean expected_std =
     \<lparr> sensor_id = sid,
       anomaly_type = SEASONAL_DEVIATION,
       severity = (if deviation > 4.0 then HIGH else MEDIUM),
       confidence = min 1.0 (deviation / 4.0),
       timestamp = r_timestamp latest_reading,
       a_value = r_value latest_reading,
       expected_range = (expected_mean - 2 * expected_std, expected_mean + 2 * expected_std),
       description = ''Unusual value for time of day'',
       recommendations = [''Compare with historical patterns'', ''Check for schedule changes'',
                          ''Verify sensor calibration''],
       metadata = [(''hourly_deviation'', MNum deviation), (''expected_mean'', MNum expected_mean)] \<rparr>"

definition detect_temporal_anomalies ::
  "AnomalyDetector \<Rightarrow> string \<Rightarrow> py_error + Anomaly list" where
  "detect_temporal_anomalies d sid =
     (case lookup d sid of
        Inl e \<Rightarrow> Inl e
      | Inr readings \<Rightarrow>
          if length readings < 24 then Inr []
          else
     (case latest readings of
        Inl e \<Rightarrow> Inl e
      | Inr latest_reading \<Rightarrow>
     (case map_of (hourly_patterns readings) (hour (r_timestamp latest_reading)) of
        None \<Rightarrow> Inr []
      | Some (expected_mean, expected_std) \<Rightarrow>
          if expected_std > 0 then
            (case fdiv \<bar>r_value latest_reading - expected_mean\<bar> expected_std of
               Inl e \<Rightarrow> Inl e
             | Inr deviation \<Rightarrow>
                 if deviation > 2.5
                 then Inr [temporal_anomaly sid latest_reading deviation expected_mean expected_std]
                 else Inr [])
          else Inr [])))"

section \<open>Cross-sensor correlation\<close>

text \<open>
  \<open>{r["timestamp"]: r["value"] for r in readings}\<close>: a later reading with the same
  timestamp overwrites the value and keeps the key's first position.
\<close>

definition timestamp_dict :: "Reading list \<Rightarrow> (datetime \<times> real) list" where
  "timestamp_dict readings =
     foldl (\<lambda>al r. AList.update (r_timestamp r) (r_value r) al) [] readings"

definition align_sensor_readings :: "Reading list \<Rightarrow> Reading list \<Rightarrow> (real \<times> real) list" where
  "align_sensor_readings readings1 readings2 =
     (let dict1 = timestamp_dict readings1; dict2 = timestamp_dict readings2
      in concat (map
           (\<lambda>(ts1, val1).
               case find (\<lambda>(ts2, val2). \<bar>total_seconds (ts1 - ts2)\<bar> \<le> 60) dict2 of
                 None \<Rightarrow> []
               | Some (ts2, val2) \<Rightarrow> [(val1, val2)])
           dict1))"

definition correlation_anomaly ::
  "string \<Rightarrow> string \<Rightarrow> Reading list \<Rightarrow> Reading \<Rightarrow> real \<Rightarrow> real \<Rightarrow> Anomaly" where
  "correlation_anomaly sensor1_id sensor2_id readings1 latest_reading correlation recent_corr =
     \<lparr> sensor_id = sensor1_id,
       anomaly_type = NETWORK_ISOLATION,
       severity = MEDIUM,
       confidence = \<bar>correlation - recent_corr\<bar>,
       timestamp = r_timestamp latest_reading,
       a_value = r_value latest_reading,
       expected_range = calculate_expected_range readings1,
       description = ''Correlation breakdown with sensor '' @ sensor2_id,
       recommendations = [''Check sensor connectivity'', ''Verify both sensors are operational'',
                          ''Investigate environmental changes''],
       metadata = [(''historical_correlation'', MNum correlation),
                   (''recent_correlation'', MNum recent_corr),
                   (''correlated_sensor'', MStr sensor2_id)] \<rparr>"

definition analyze_sensor_correlation ::
  "AnomalyDetector \<Rightarrow> string \<Rightarrow> string \<Rightarrow> py_error + Anomaly option" where
  "analyze_sensor_correlation d sensor1_id sensor2_id =
     (case lookup d sensor1_id of
        Inl e \<Rightarrow> Inl e
      | Inr readings1 \<Rightarrow>
     (case lookup d sensor2_id of
        Inl e \<Rightarrow> Inl e
      | Inr readings2 \<Rightarrow>
          let common_readings = align_sensor_readings readings1 readings2 in
          if length common_readings < 10 then Inr None
          else
            let values1 = map fst common_readings; values2 = map snd common_readings in
            (case np_corrcoef values1 values2 of
               None \<Rightarrow> Inr None
             | Some correlation \<Rightarrow>
            (case np_corrcoef (last_n 10 values1) (last_n 10 values2) of
               None \<Rightarrow> Inr None
             | Some recent_corr \<Rightarrow>
                 if \<bar>correlation - recent_corr\<bar> > 0.5 then
                   (case latest readings1 of
                      Inl e \<Rightarrow> Inl e
                    | Inr latest_reading \<Rightarrow>
                        Inr (Some (correlation_anomaly sensor1_id sensor2_id readings1
                                     latest_reading correlation recent_corr)))
                 else Inr None))))"

text \<open>Truthiness of an optional zone id: neither \<open>None\<close> nor the empty string.\<close>

definition zone_truthy :: "string option \<Rightarrow> bool" where
  "zone_truthy z = (case z of None \<Rightarrow> False | Some s \<Rightarrow> s \<noteq> [])"

text \<open>The loop over \<open>self.sensor_data.items()\<close> that collects the related sensors.\<close>

fun correlated_sensors ::
  "AnomalyDetector \<Rightarrow> string \<Rightarrow> string option \<Rightarrow> (string \<times> Reading list) list \<Rightarrow> py_error + string list" where
  "correlated_sensors d sid target_zone [] = Inr []"
| "correlated_sensors d sid target_zone ((other_id, other_readings) # items) =
     (if other_id = sid \<or> int (length other_readings) < min_samples_for_detection d
      then correlated_sensors d sid target_zone items
      else
        (case latest other_readings of
           Inl e \<Rightarrow> Inl e
         | Inr other_latest \<Rightarrow>
        (case correlated_sensors d sid target_zone items of
           Inl e \<Rightarrow> Inl e
         | Inr rest \<Rightarrow>
             if zone_truthy target_zone \<and> r_zone_id other_latest = target_zone
             then Inr (other_id # rest) else Inr rest)))"

fun analyze_correlated :: "AnomalyDetector \<Rightarrow> string \<Rightarrow> string list \<Rightarrow> py_error + Anomaly list" where
  "analyze_correlated d sid [] = Inr []"
| "analyze_correlated d sid (other_id # others) =
     (case analyze_sensor_correlation d sid other_id of
        Inl e \<Rightarrow> Inl e
      | Inr anomaly \<Rightarrow>
     (case analyze_correlated d sid others of
        Inl e \<Rightarrow> Inl e
      | Inr rest \<Rightarrow> Inr ((case anomaly of None \<Rightarrow> [] | Some a \<Rightarrow> [a]) @ rest)))"

definition detect_correlation_anomalies ::
  "AnomalyDetector \<Rightarrow> string \<Rightarrow> py_error + Anomaly list" where
  "detect_correlation_anomalies d sid =
     (if length (sensor_data d) < 2 then Inr []
      else
     (case lookup d sid of
        Inl e \<Rightarrow> Inl e
      | Inr target_readings \<Rightarrow>
     (case latest target_readings of
        Inl e \<Rightarrow> Inl e
      | Inr target_latest \<Rightarrow>
     (case correlated_sensors d sid (r_zone_id target_latest) (sensor_data d) of
        Inl e \<Rightarrow> Inl e
      | Inr correlated \<Rightarrow>
          if correlated = [] then Inr [] else analyze_correlated d sid correlated))))"

section \<open>Network isolation\<close>

text \<open>A graph object is truthy when it has at least one node.\<close>

definition graph_truthy :: "Graph option \<Rightarrow> bool" where
  "graph_truthy g = (case g of None \<Rightarrow> False | Some gr \<Rightarrow> nodes gr \<noteq> [])"

definition network_anomaly :: "string \<Rightarrow> Reading list \<Rightarrow> Anomaly" where
  "network_anomaly sid readings =
     \<lparr> sensor_id = sid,
       anomaly_type = NETWORK_ISOLATION,
       severity = HIGH,
       confidence = 1.0,
       timestamp = r_timestamp (last readings),
       a_value = r_value (last readings),
       expected_range = calculate_expected_range readings,
       description = ''Sensor isolated from network'',
       recommendations = [''Check network connectivity'', ''Verify sensor power supply'',
                          ''Inspect physical connections''],
       metadata = [(''network_degree'', MNum 0)] \<rparr>"

definition isolated_nodes :: "Graph \<Rightarrow> string list" where
  "isolated_nodes g = filter (\<lambda>node. degree g node = 0) (nodes g)"

definition detect_network_anomalies :: "AnomalyDetector \<Rightarrow> Anomaly list" where
  "detect_network_anomalies d =
     (if \<not> graph_truthy (network_graph d) then []
      else
        (case network_graph d of
           None \<Rightarrow> []
         | Some g \<Rightarrow>
             concat (map
               (\<lambda>sid. case map_of (sensor_data d) sid of
                         None \<Rightarrow> []
                       | Some readings \<Rightarrow> if readings = [] then [] else [network_anomaly sid readings])
               (isolated_nodes g))))"

text \<open>
  \<open>update_network_graph\<close> stores what the building's \<open>get_sensor_network_graph\<close>
  returns (a graph, or \<open>None\<close> when \<open>networkx\<close> is missing).
\<close>

definition update_network_graph :: "AnomalyDetector \<Rightarrow> Graph option \<Rightarrow> AnomalyDetector" where
  "update_network_graph d g = d\<lparr>network_graph := g\<rparr>"

section \<open>\<open>detect_anomalies\<close>\<close>

text \<open>
  \<open>list.sort(key=..., reverse=True)\<close>: a stable sort in descending key order (the
  list is reversed, sorted stably in ascending order, and reversed again). The key is
  the pair of the severity's string value and the timestamp; Python compares the pair
  lexicographically and the strings by character codes.
\<close>

definition sort_reverse :: "('a \<Rightarrow> 'k::linorder) \<Rightarrow> 'a list \<Rightarrow> 'a list" where
  "sort_reverse f xs = rev (sort_key f (rev xs))"

definition anomaly_sort_key :: "Anomaly \<Rightarrow> string \<times> datetime" where
  "anomaly_sort_key x = (SeverityLevel_value (severity x), timestamp x)"

text \<open>The loop over \<open>sensor_ids\<close>; an exception leaves it at once.\<close>

fun detect_sensors :: "AnomalyDetector \<Rightarrow> string list \<Rightarrow> py_error + Anomaly list" where
  "detect_sensors d [] = Inr []"
| "detect_sensors d (sid # sids) =
     (case lookup d sid of
        Inl e \<Rightarrow> Inl e
      | Inr readings \<Rightarrow>
          if int (length readings) < min_samples_for_detection d then detect_sensors d sids
          else
     (case detect_isolation_forest_anomalies d sid of
        Inl e \<Rightarrow> Inl e
      | Inr isolation_anomalies \<Rightarrow>
     (case detect_energy_anomalies d sid of
        Inl e \<Rightarrow> Inl e
      | Inr energy_anomalies \<Rightarrow>
     (case detect_temporal_anomalies d sid of
        Inl e \<Rightarrow> Inl e
      | Inr temporal_anomalies \<Rightarrow>
     (case detect_correlation_anomalies d sid of
        Inl e \<Rightarrow> Inl e
      | Inr correlation_anomalies \<Rightarrow>
     (case detect_sensors d sids of
        Inl e \<Rightarrow> Inl e
      | Inr rest \<Rightarrow>
          Inr (isolation_anomalies @ energy_anomalies @ temporal_anomalies
               @ correlation_anomalies @ rest)))))))"

text \<open>
  The result is the sorted list together with the detector whose anomaly store has been
  extended (in detection order, before sorting).
\<close>

definition detect_anomalies ::
  "AnomalyDetector \<Rightarrow> string list option \<Rightarrow> py_error + (Anomaly list \<times> AnomalyDetector)" where
  "detect_anomalies d sensor_ids_opt =
     (let sensor_ids = (case sensor_ids_opt of None \<Rightarrow> map fst (sensor_data d) | Some ids \<Rightarrow> ids)
      in case detect_sensors d sensor_ids of
           Inl e \<Rightarrow> Inl e
         | Inr per_sensor \<Rightarrow>
             let detected =
                   per_sensor @ (if network_analysis d \<and> graph_truthy (network_graph d)
                                 then detect_network_anomalies d else [])
             in Inr (sort_reverse anomaly_sort_key detected,
                     d\<lparr>detected_anomalies := detected_anomalies d @ detected\<rparr>))"

section \<open>\<open>get_anomaly_summary\<close>\<close>

text \<open>
  \<open>timedelta(hours=h)\<close> raises \<open>OverflowError\<close> beyond 999999999 days, and so does a
  datetime subtraction that leaves the years 1 to 9999.
\<close>

definition datetime_max :: datetime where
  "datetime_max = 3652059 * 86400000000 - 1"

definition timedelta_hours :: "int \<Rightarrow> py_error + int" where
  "timedelta_hours h =
     (if \<bar>h div 24\<bar> > 999999999 then Inl OverflowError else Inr (h * 3600000000))"

definition datetime_sub :: "datetime \<Rightarrow> int \<Rightarrow> py_error + datetime" where
  "datetime_sub t delta =
     (if t - delta < 0 \<or> t - delta > datetime_max then Inl OverflowError else Inr (t - delta))"

text \<open>
  The summary dict. \<open>most_recent\<close> holds the timestamp whose ISO string the source
  returns; \<open>critical_sensors\<close> is the list of a set, in no specified order.
\<close>

record Summary =
  total_anomalies :: nat
  by_severity :: "(string \<times> nat) list"
  by_type :: "(string \<times> nat) list"
  most_recent :: "datetime option"
  critical_sensors :: "string set"

definition recent_anomalies :: "datetime \<Rightarrow> Anomaly list \<Rightarrow> Anomaly list" where
  "recent_anomalies cutoff_time store = filter (\<lambda>a. timestamp a \<ge> cutoff_time) store"

definition summary_of :: "Anomaly list \<Rightarrow> Summary" where
  "summary_of recent =
     \<lparr> total_anomalies = length recent,
       by_severity =
         map (\<lambda>level. (SeverityLevel_value level, length (filter (\<lambda>a. severity a = level) recent)))
             SeverityLevel_members,
       by_type =
         map (\<lambda>atype. (AnomalyType_value atype, length (filter (\<lambda>a. anomaly_type a = atype) recent)))
             AnomalyType_members,
       most_recent = (if recent \<noteq> [] then Some (timestamp (hd recent)) else None),
       critical_sensors = set (map sensor_id (filter (\<lambda>a. severity a = CRITICAL) recent)) \<rparr>"

definition get_anomaly_summary :: "datetime \<Rightarrow> AnomalyDetector \<Rightarrow> int \<Rightarrow> py_error + Summary" where
  "get_anomaly_summary now d hours =
     (case timedelta_hours hours of
        Inl e \<Rightarrow> Inl e
      | Inr delta \<Rightarrow>
     (case datetime_sub now delta of
        Inl e \<Rightarrow> Inl e
      | Inr cutoff_time \<Rightarrow> Inr (summary_of (recent_anomalies cutoff_time (detected_anomalies d)))))"

section \<open>\<open>MonitoringConfig\<close> and \<open>MonitoringSystem.__init__\<close>\<close>

record MonitoringConfig =
  sampling_interval :: int
  anomaly_check_interval :: int
  auto_start :: bool
  save_history :: bool
  max_history_size :: int
  enable_alerts :: bool
  alert_threshold :: string

text \<open>The dataclass's generated constructor stores its arguments as they are.\<close>

definition MonitoringConfig_init ::
  "int \<Rightarrow> int \<Rightarrow> bool \<Rightarrow> bool \<Rightarrow> int \<Rightarrow> bool \<Rightarrow> string \<Rightarrow> py_error + MonitoringConfig" where
  "MonitoringConfig_init si aci auto save mhs alerts threshold =
     Inr \<lparr> sampling_interval = si,
           anomaly_check_interval = aci,
           auto_start = auto,
           save_history = save,
           max_history_size = mhs,
           enable_alerts = alerts,
           alert_threshold = threshold \<rparr>"

definition MonitoringConfig_default :: MonitoringConfig where
  "MonitoringConfig_default =
     \<lparr> sampling_interval = 60,
       anomaly_check_interval = 300,
       auto_start = True,
       save_history = True,
       max_history_size = 10000,
       enable_alerts = True,
       alert_threshold = ''medium'' \<rparr>"

text \<open>
  The monitoring object after construction. The building is an external collaborator
  of which the constructor reads only the name, for a log line. A history snapshot is a
  timestamp with one entry per sensor (the value read, or nothing when the sensor
  failed); an alert is the projection of an anomaly that \<open>_process_alerts\<close> stores.
  The worker thread starts absent and the stop event cleared.
\<close>

type_synonym reading_snapshot = "datetime \<times> (string \<times> real option) list"

record Alert =
  alert_timestamp :: datetime
  alert_sensor_id :: string
  alert_anomaly_type :: string
  alert_severity :: string
  alert_confidence :: real
  alert_description :: string
  alert_recommendations :: "string list"
  alert_value :: real
  alert_expected_range :: "real \<times> real"

record MonitoringSystem =
  building_name :: string
  config :: MonitoringConfig
  anomaly_detector :: AnomalyDetector
  is_running :: bool
  monitoring_thread :: "unit option"
  stop_event :: bool
  reading_history :: "reading_snapshot list"
  alert_history :: "Alert list"
  start_time :: "datetime option"
  total_readings :: nat
  total_anomalies_seen :: nat

definition MonitoringSystem_init ::
  "(real list \<Rightarrow> (int \<times> real) list) \<Rightarrow> string \<Rightarrow> MonitoringConfig option \<Rightarrow> py_error + MonitoringSystem" where
  "MonitoringSystem_init forest name config_opt =
     Inr \<lparr> building_name = name,
           config = (case config_opt of None \<Rightarrow> MonitoringConfig_default | Some c \<Rightarrow> c),
           anomaly_detector = AnomalyDetector_default forest,
           is_running = False,
           monitoring_thread = None,
           stop_event = False,
           reading_history = [],
           alert_history = [],
           start_time = None,
           total_readings = 0,
           total_anomalies_seen = 0 \<rparr>"

text \<open>
  Every window of the data store holds at least one reading. This is an invariant of
  every detector built by the constructor with \<open>window_size \<ge> 1\<close>.
\<close>

definition windows_nonempty :: "AnomalyDetector \<Rightarrow> bool" where
  "windows_nonempty d = list_all (\<lambda>(sid, rs). rs \<noteq> []) (sensor_data d)"

section \<open>Example inputs\<close>

text \<open>
  Concrete calls and detectors on which the theorems below are evaluated. The
  isolation forest of the examples flags no point.
\<close>

definition example_call :: "string \<Rightarrow> datetime \<Rightarrow> real \<Rightarrow> add_call" where
  "example_call sid t v =
     \<lparr> c_now = t, c_sensor_id = sid, c_value = v, c_timestamp = None,
       c_sensor_type = ''energy_power'', c_zone_id = Some ''zone_a'' \<rparr>"

definition no_outliers :: "real list \<Rightarrow> (int \<times> real) list" where
  "no_outliers vals = map (\<lambda>v. (1, 0.1)) vals"

definition window_calls :: "add_call list" where
  "window_calls = [example_call ''s1'' 10 1, example_call ''s2'' 20 9,
                   example_call ''s1'' 30 2, example_call ''s1'' 40 3]"

text \<open>
  Timestamps of the examples: midnight of 2024-01-01 plus a number of hours.
\<close>

definition example_day :: datetime where
  "example_day = 63839664000000000"

definition hours_us :: "int \<Rightarrow> int" where
  "hours_us h = h * 3600000000"

text \<open>
  Two sensors with one reading each, neither connected to anything in the graph.
\<close>

definition isolated_detector :: AnomalyDetector where
  "isolated_detector =
     update_network_graph
       (add_sensor_readings (AnomalyDetector_default no_outliers)
          [example_call ''s1'' (example_day + hours_us 1) 5,
           example_call ''s2'' (example_day + hours_us 2) 7])
       (Some \<lparr> nodes = [''s1'', ''s2''], edges = [] \<rparr>)"

definition negative_config :: MonitoringConfig where
  "negative_config =
     MonitoringConfig_default\<lparr>sampling_interval := - 1, anomaly_check_interval := - 300\<rparr>"




text \<open>
  An energy sensor \<open>s1\<close> with twenty hourly readings (historical mean 20 and deviation
  2, recent mean 25) and a sensor \<open>s2\<close> with a single reading; the graph connects
  neither. The isolation forest is left arbitrary.
\<close>

definition mixed_calls :: "add_call list" where
  "mixed_calls =
     map (\<lambda>(k, v). example_call ''s1'' (example_day + hours_us k) v)
       [(0, 18), (1, 22), (2, 18), (3, 22), (4, 18), (5, 22), (6, 18), (7, 22), (8, 18), (9, 22),
        (10, 25), (11, 25), (12, 25), (13, 25), (14, 25), (15, 25), (16, 25), (17, 25),
        (18, 25), (19, 25)]
     @ [example_call ''s2'' (example_day + hours_us 5) 7]"

definition mixed_detector :: "(real list \<Rightarrow> (int \<times> real) list) \<Rightarrow> AnomalyDetector" where
  "mixed_detector forest =
     update_network_graph (add_sensor_readings (AnomalyDetector_default forest) mixed_calls)
       (Some \<lparr> nodes = [''s1'', ''s2''], edges = [] \<rparr>)"

definition mixed_s1 :: "Reading list" where
  "mixed_s1 = map (\<lambda>(k, v). make_reading (example_call ''s1'' (example_day + hours_us k) v))
       [(0, 18), (1, 22), (2, 18), (3, 22), (4, 18), (5, 22), (6, 18), (7, 22), (8, 18), (9, 22),
        (10, 25), (11, 25), (12, 25), (13, 25), (14, 25), (15, 25), (16, 25), (17, 25),
        (18, 25), (19, 25)]"

definition mixed_s2 :: "Reading list" where
  "mixed_s2 = [make_reading (example_call ''s2'' (example_day + hours_us 5) 7)]"

text \<open>
  Two temperature sensors of one zone, read at the same twenty hours. Over the whole
  window the two series run against each other; over the last ten readings they are
  equal.
\<close>

definition zone_call :: "string \<Rightarrow> datetime \<Rightarrow> real \<Rightarrow> add_call" where
  "zone_call sid t v =
     \<lparr> c_now = t, c_sensor_id = sid, c_value = v, c_timestamp = None,
       c_sensor_type = ''hvac_temperature'', c_zone_id = Some ''zone_a'' \<rparr>"

definition corr_values1 :: "real list" where
  "corr_values1 = [29, 29, 29, 29, 29, - 20, - 20, - 20, - 20, - 20, 0, 1, 2, 3, 4, 5, 6, 7, 8, 9]"

definition corr_values2 :: "real list" where
  "corr_values2 = [- 20, - 20, - 20, - 20, - 20, 29, 29, 29, 29, 29, 0, 1, 2, 3, 4, 5, 6, 7, 8, 9]"

definition corr_hours :: "int list" where
  "corr_hours = [0, 1, 2, 3, 4, 5, 6, 7, 8, 9, 10, 11, 12, 13, 14, 15, 16, 17, 18, 19]"

definition corr_calls :: "string \<Rightarrow> real list \<Rightarrow> add_call list" where
  "corr_calls sid vals = map2 (\<lambda>k v. zone_call sid (example_day + hours_us k) v) corr_hours vals"

definition corr_detector :: "(real list \<Rightarrow> (int \<times> real) list) \<Rightarrow> AnomalyDetector" where
  "corr_detector forest =
     add_sensor_readings (AnomalyDetector_default forest)
       (corr_calls ''s1'' corr_values1 @ corr_calls ''s2'' corr_values2)"

definition corr_readings :: "string \<Rightarrow> real list \<Rightarrow> Reading list" where
  "corr_readings sid vals = map make_reading (corr_calls sid vals)"

section \<open>Window lemmas\<close>

lemma add_sensor_reading_window_size [simp]:
  "window_size (add_sensor_reading d c) = window_size d"
  by (simp add: add_sensor_reading_def Let_def)

lemma add_sensor_readings_window_size [simp]:
  "window_size (add_sensor_readings d cs) = window_size d"
  unfolding add_sensor_readings_def
  by (induction cs arbitrary: d) simp_all

lemma stored_add_other:
  "c_sensor_id c \<noteq> sid \<Longrightarrow> stored (add_sensor_reading d c) sid = stored d sid"
  by (simp add: stored_def add_sensor_reading_def Let_def update_conv')

lemma stored_add_same:
  "stored (add_sensor_reading d c) (c_sensor_id c) =
     (let appended = stored d (c_sensor_id c) @ [make_reading c]
      in if int (length appended) > window_size d then tl appended else appended)"
  by (simp add: stored_def add_sensor_reading_def Let_def update_conv' split: option.splits)

lemma present_add_same:
  "map_of (sensor_data (add_sensor_reading d c)) (c_sensor_id c) \<noteq> None"
  by (simp add: add_sensor_reading_def Let_def update_conv')

lemma present_add_other:
  "c_sensor_id c \<noteq> sid \<Longrightarrow>
   map_of (sensor_data (add_sensor_reading d c)) sid = map_of (sensor_data d) sid"
  by (simp add: add_sensor_reading_def Let_def update_conv')

lemma add_sensor_readings_snoc:
  "add_sensor_readings d (cs @ [c]) = add_sensor_reading (add_sensor_readings d cs) c"
  by (simp add: add_sensor_readings_def)

lemma slide_general:
  fixes rs :: "'a list"
  shows "(let a = last_n n rs @ [r] in if int (length a) > int n then tl a else a)
         = last_n n (rs @ [r])"
proof (cases "length rs < n")
  case True
  then show ?thesis by (simp add: last_n_def Let_def)
next
  case False
  define k where "k = length rs - n"
  have len: "length (drop k rs) = n" using False by (simp add: k_def)
  have k': "length (rs @ [r]) - n = Suc k" using False by (simp add: k_def)
  have "tl (drop k rs @ [r]) = drop (Suc k) (rs @ [r])"
  proof (cases "n = 0")
    case True
    then show ?thesis using len by (simp add: k_def)
  next
    case False
    then have "drop k rs \<noteq> []" using len by auto
    then have "tl (drop k rs @ [r]) = tl (drop k rs) @ [r]" by simp
    also have "tl (drop k rs) = drop (Suc k) rs" by (simp add: drop_Suc tl_drop)
    also have "drop (Suc k) rs @ [r] = drop (Suc k) (rs @ [r])"
      using \<open>drop k rs \<noteq> []\<close> by simp
    finally show ?thesis .
  qed
  then show ?thesis using len k' by (simp add: last_n_def Let_def k_def)
qed

lemma stored_add_sensor_readings:
  assumes "0 \<le> window_size d" and "stored d sid = []"
  shows "stored (add_sensor_readings d cs) sid = last_n (nat (window_size d)) (readings_for sid cs)"
proof (induction cs rule: rev_induct)
  case Nil
  then show ?case using assms by (simp add: add_sensor_readings_def readings_for_def last_n_def)
next
  case (snoc c cs)
  show ?case
  proof (cases "c_sensor_id c = sid")
    case False
    then show ?thesis
      using snoc by (simp add: add_sensor_readings_snoc stored_add_other readings_for_def)
  next
    case True
    have w: "window_size d = int (nat (window_size d))" using assms(1) by simp
    have "stored (add_sensor_readings d (cs @ [c])) sid =
          (let a = last_n (nat (window_size d)) (readings_for sid cs) @ [make_reading c]
           in if int (length a) > int (nat (window_size d)) then tl a else a)"
      using True snoc stored_add_same [of "add_sensor_readings d cs" c] w
      by (simp add: add_sensor_readings_snoc Let_def)
    also have "\<dots> = last_n (nat (window_size d)) (readings_for sid cs @ [make_reading c])"
      by (rule slide_general)
    also have "readings_for sid cs @ [make_reading c] = readings_for sid (cs @ [c])"
      using True by (simp add: readings_for_def)
    finally show ?thesis .
  qed
qed

lemma stored_init [simp]: "stored (AnomalyDetector_init forest ws cont ms net) sid = []"
  by (simp add: stored_def AnomalyDetector_init_def)

lemma window_size_init [simp]:
  "window_size (AnomalyDetector_init forest ws cont ms net) = ws"
  by (simp add: AnomalyDetector_init_def)

section \<open>Claims\<close>

text \<open>
  C6. On a detector constructed with window capacity \<open>N = window_size \<ge> 0\<close>, after any
  sequence of calls to \<open>add_sensor_reading\<close> (calls for other sensors may be
  interleaved), the list stored for a sensor is never longer than \<open>N\<close>; and when the
  sensor received \<open>M > N\<close> readings, the list has length exactly \<open>N\<close> and holds exactly
  the last \<open>N\<close> readings added for it, in insertion order.
\<close>

theorem C6_sliding_window:
  fixes d :: AnomalyDetector
  assumes "0 \<le> ws"
    and "d = add_sensor_readings (AnomalyDetector_init forest ws cont ms net) cs"
  shows "int (length (stored d sid)) \<le> ws \<and>
         (int (length (readings_for sid cs)) > ws \<longrightarrow>
            int (length (stored d sid)) = ws \<and>
            stored d sid = last_n (nat ws) (readings_for sid cs) \<and>
            map_of (sensor_data d) sid = Some (last_n (nat ws) (readings_for sid cs)))"
proof -
  have st: "stored d sid = last_n (nat ws) (readings_for sid cs)"
    using stored_add_sensor_readings [of "AnomalyDetector_init forest ws cont ms net" sid cs] assms
    by simp
  have le: "int (length (stored d sid)) \<le> ws"
    using assms(1) by (simp add: st last_n_def)
  have full: "int (length (stored d sid)) = ws \<and>
        stored d sid = last_n (nat ws) (readings_for sid cs) \<and>
        map_of (sensor_data d) sid = Some (last_n (nat ws) (readings_for sid cs))"
    if M: "int (length (readings_for sid cs)) > ws"
  proof -
    have ne: "filter (\<lambda>c. c_sensor_id c = sid) cs \<noteq> []"
      using M assms(1) by (auto simp: readings_for_def)
    have pres: "map_of (sensor_data (add_sensor_readings d0 cs)) sid \<noteq> None"
      if "filter (\<lambda>c. c_sensor_id c = sid) cs \<noteq> []" for d0
      using that
    proof (induction cs rule: rev_induct)
      case Nil
      then show ?case by simp
    next
      case (snoc c cs)
      show ?case
      proof (cases "c_sensor_id c = sid")
        case True
        then show ?thesis
          using present_add_same [of "add_sensor_readings d0 cs" c]
          by (simp add: add_sensor_readings_snoc)
      next
        case False
        then show ?thesis
          using snoc by (simp add: add_sensor_readings_snoc present_add_other)
      qed
    qed
    from pres [OF ne] obtain xs where xs: "map_of (sensor_data d) sid = Some xs"
      unfolding assms(2) by blast
    then have "stored d sid = xs" by (simp add: stored_def)
    with st xs M assms(1) show ?thesis
      by (simp add: last_n_def)
  qed
  from le full show ?thesis by blast
qed

theorem C6_sliding_window_witness:
  "(0::int) \<le> 2 \<and> int (length (readings_for ''s1'' window_calls)) > 2 \<and>
   stored (add_sensor_readings (AnomalyDetector_init no_outliers 2 0.05 20 True) window_calls) ''s1''
     = [make_reading (example_call ''s1'' 30 2), make_reading (example_call ''s1'' 40 3)]"
  using C6_sliding_window [of 2 "add_sensor_readings (AnomalyDetector_init no_outliers 2 0.05 20 True) window_calls"
      no_outliers "0.05" 20 True window_calls "''s1''"]
  by (simp add: readings_for_def last_n_def window_calls_def example_call_def)

section \<open>Summary lemmas\<close>

lemma count_by_severity:
  "length (filter (\<lambda>a. severity a = LOW) xs) + length (filter (\<lambda>a. severity a = MEDIUM) xs)
   + length (filter (\<lambda>a. severity a = HIGH) xs) + length (filter (\<lambda>a. severity a = CRITICAL) xs)
   = length xs"
proof (induction xs)
  case Nil
  then show ?case by simp
next
  case (Cons a xs)
  then show ?case by (cases "severity a") simp_all
qed

lemma count_by_type:
  "length (filter (\<lambda>a. anomaly_type a = ENERGY_SPIKE) xs)
   + length (filter (\<lambda>a. anomaly_type a = EQUIPMENT_FAILURE) xs)
   + length (filter (\<lambda>a. anomaly_type a = EFFICIENCY_DROP) xs)
   + length (filter (\<lambda>a. anomaly_type a = NETWORK_ISOLATION) xs)
   + length (filter (\<lambda>a. anomaly_type a = SEASONAL_DEVIATION) xs)
   + length (filter (\<lambda>a. anomaly_type a = OCCUPANCY_MISMATCH) xs)
   + length (filter (\<lambda>a. anomaly_type a = UNKNOWN) xs)
   = length xs"
proof (induction xs)
  case Nil
  then show ?case by simp
next
  case (Cons a xs)
  then show ?case by (cases "anomaly_type a") simp_all
qed

lemma summary_of_counts:
  "sum_list (map snd (by_severity (summary_of xs))) = total_anomalies (summary_of xs) \<and>
   sum_list (map snd (by_type (summary_of xs))) = total_anomalies (summary_of xs) \<and>
   map fst (by_severity (summary_of xs)) = [''low'', ''medium'', ''high'', ''critical''] \<and>
   map fst (by_type (summary_of xs)) =
     [''energy_spike'', ''equipment_failure'', ''efficiency_drop'', ''network_isolation'',
      ''seasonal_deviation'', ''occupancy_mismatch'', ''unknown'']"
  using count_by_severity [of xs] count_by_type [of xs]
  by (simp add: summary_of_def SeverityLevel_members_def AnomalyType_members_def)

lemma detect_isolated_detector:
  "detect_anomalies isolated_detector None =
     Inr ([network_anomaly ''s2'' [make_reading (example_call ''s2'' (example_day + hours_us 2) 7)],
           network_anomaly ''s1'' [make_reading (example_call ''s1'' (example_day + hours_us 1) 5)]],
          isolated_detector\<lparr>detected_anomalies :=
            [network_anomaly ''s1'' [make_reading (example_call ''s1'' (example_day + hours_us 1) 5)],
             network_anomaly ''s2'' [make_reading (example_call ''s2'' (example_day + hours_us 2) 7)]]\<rparr>)"
  by (simp add: detect_anomalies_def isolated_detector_def update_network_graph_def
     AnomalyDetector_default_def AnomalyDetector_init_def add_sensor_readings_def add_sensor_reading_def
     example_call_def make_reading_def lookup_def graph_truthy_def detect_network_anomalies_def
     isolated_nodes_def degree_def sort_reverse_def anomaly_sort_key_def network_anomaly_def Let_def
     example_day_def hours_us_def less_eq_prod_def)

text \<open>
  C9. Whenever \<open>get_anomaly_summary\<close> returns a summary (the only other outcome is
  the \<open>OverflowError\<close> of the date arithmetic), the counts by severity and the
  counts by type both add up to \<open>total_anomalies\<close>, and all four severity keys and
  all seven anomaly-type keys are present, whatever the store holds.
\<close>

theorem C9_summary_counts:
  "case get_anomaly_summary now d hours of
     Inl e \<Rightarrow> e = OverflowError
   | Inr s \<Rightarrow>
       sum_list (map snd (by_severity s)) = total_anomalies s \<and>
       sum_list (map snd (by_type s)) = total_anomalies s \<and>
       map fst (by_severity s) = [''low'', ''medium'', ''high'', ''critical''] \<and>
       map fst (by_type s) =
         [''energy_spike'', ''equipment_failure'', ''efficiency_drop'', ''network_isolation'',
          ''seasonal_deviation'', ''occupancy_mismatch'', ''unknown'']"
  using summary_of_counts
  by (simp add: get_anomaly_summary_def timedelta_hours_def datetime_sub_def
        split: sum.splits if_splits)

theorem C9_summary_counts_witness:
  "case get_anomaly_summary (example_day + hours_us 3)
          (isolated_detector\<lparr>detected_anomalies :=
             [network_anomaly ''s1'' [make_reading (example_call ''s1'' (example_day + hours_us 1) 5)]]\<rparr>) 24 of
     Inl e \<Rightarrow> False
   | Inr s \<Rightarrow> total_anomalies s = 1 \<and> sum_list (map snd (by_severity s)) = 1 \<and>
              sum_list (map snd (by_type s)) = 1"
  using C9_summary_counts [of "example_day + hours_us 3"
      "isolated_detector\<lparr>detected_anomalies :=
         [network_anomaly ''s1'' [make_reading (example_call ''s1'' (example_day + hours_us 1) 5)]]\<rparr>" 24]
  by (simp add: get_anomaly_summary_def timedelta_hours_def datetime_sub_def datetime_max_def
        example_day_def hours_us_def summary_of_def recent_anomalies_def network_anomaly_def
        make_reading_def example_call_def split: sum.splits)

text \<open>
  C4. The failing input: one detection run on two isolated sensors whose latest
  readings were taken at 01:00 and 02:00 stores the two anomalies in detection order.
  Three hours into the day, the 24-hour summary reports \<open>most_recent\<close> as 01:00, the
  timestamp of the first stored anomaly of the window, although the anomaly of 02:00 is
  in the window too.
\<close>

theorem C4_most_recent_is_first_stored:
  "case detect_anomalies isolated_detector None of
     Inl e \<Rightarrow> False
   | Inr (returned, d') \<Rightarrow>
       map timestamp (detected_anomalies d') = [example_day + hours_us 1, example_day + hours_us 2] \<and>
       (case get_anomaly_summary (example_day + hours_us 3) d' 24 of
          Inl e \<Rightarrow> False
        | Inr s \<Rightarrow> total_anomalies s = 2 \<and> most_recent s = Some (example_day + hours_us 1))"
  by (simp add: detect_isolated_detector get_anomaly_summary_def timedelta_hours_def
        datetime_sub_def datetime_max_def summary_of_def recent_anomalies_def network_anomaly_def
        make_reading_def example_call_def example_day_def hours_us_def)

text \<open>
  C5. The claim fails: a configuration with \<open>sampling_interval = -1\<close> and
  \<open>anomaly_check_interval = -300\<close> is constructed and accepted by the monitoring
  system's constructor.
\<close>

theorem C5_negative_config_accepted:
  "MonitoringConfig_init (- 1) (- 300) True True 10000 True ''medium'' = Inr negative_config \<and>
   (case MonitoringSystem_init no_outliers ''HQ'' (Some negative_config) of
      Inl e \<Rightarrow> False
    | Inr s \<Rightarrow> sampling_interval (config s) = - 1 \<and> anomaly_check_interval (config s) = - 300)"
  by (simp add: MonitoringConfig_init_def MonitoringSystem_init_def negative_config_def
        MonitoringConfig_default_def)

text \<open>
  C5, as amended. Construction validates nothing: the configuration constructor stores
  any intervals it is given, and the monitoring system's constructor accepts every
  configuration, keeps it unchanged and starts stopped; neither ever fails.
\<close>

theorem C5_construction_validates_nothing:
  "(case MonitoringConfig_init si aci au sv mh al th of
      Inl e \<Rightarrow> False
    | Inr c \<Rightarrow> sampling_interval c = si \<and> anomaly_check_interval c = aci) \<and>
   (case MonitoringSystem_init forest name (Some c) of
      Inl e \<Rightarrow> False
    | Inr s \<Rightarrow> config s = c \<and> \<not> is_running s \<and> start_time s = None \<and>
              total_readings s = 0 \<and> reading_history s = [] \<and> alert_history s = [])"
  by (simp add: MonitoringConfig_init_def MonitoringSystem_init_def)

theorem C5_construction_validates_nothing_witness:
  "(case MonitoringSystem_init no_outliers ''HQ''
           (Some (MonitoringConfig_default\<lparr>sampling_interval := 0\<rparr>)) of
      Inl e \<Rightarrow> False
    | Inr s \<Rightarrow> sampling_interval (config s) = 0 \<and> \<not> is_running s)"
  using C5_construction_validates_nothing [where forest = no_outliers and name = "''HQ''"
      and c = "MonitoringConfig_default\<lparr>sampling_interval := 0\<rparr>"]
  by (simp add: MonitoringSystem_init_def MonitoringConfig_default_def split: sum.splits)

section \<open>Energy and temporal checks\<close>



lemma latest_nonempty: "rs \<noteq> [] \<Longrightarrow> latest rs = Inr (last rs)"
  by (simp add: latest_def)

lemma add_sensor_readings_frame:
  "energy_spike_threshold (add_sensor_readings d cs) = energy_spike_threshold d \<and>
   min_samples_for_detection (add_sensor_readings d cs) = min_samples_for_detection d \<and>
   network_analysis (add_sensor_readings d cs) = network_analysis d \<and>
   network_graph (add_sensor_readings d cs) = network_graph d \<and>
   isolation_forest (add_sensor_readings d cs) = isolation_forest d \<and>
   detected_anomalies (add_sensor_readings d cs) = detected_anomalies d"
  unfolding add_sensor_readings_def
  by (induction cs arbitrary: d) (simp_all add: add_sensor_reading_def Let_def)


lemma detect_temporal_no_zero_division:
  "detect_temporal_anomalies d sid \<noteq> Inl ZeroDivisionError"
  by (auto simp: detect_temporal_anomalies_def lookup_def latest_def fdiv_def
        split: sum.splits option.splits if_splits prod.splits)






section \<open>Order of the returned list\<close>

lemma sort_reverse_set [simp]: "set (sort_reverse f xs) = set xs"
  by (simp add: sort_reverse_def)

lemma sort_reverse_sorted: "sorted_wrt (\<lambda>a b. f a \<ge> f b) (sort_reverse f xs)"
proof -
  have "sorted (map f (sort_key f (rev xs)))" by simp
  then have "sorted_wrt (\<lambda>a b. f a \<le> f b) (sort_key f (rev xs))"
    by (simp add: sorted_map)
  then show ?thesis
    by (simp add: sort_reverse_def sorted_wrt_rev)
qed

lemma sorted_wrt_position:
  assumes "sorted_wrt R xs" and "a \<in> set xs" and "b \<in> set xs" and "\<not> R b a" and "a \<noteq> b"
  shows "\<exists>i j. i < j \<and> j < length xs \<and> xs ! i = a \<and> xs ! j = b"
proof -
  from assms(2) obtain i where i: "i < length xs" "xs ! i = a" by (auto simp: in_set_conv_nth)
  from assms(3) obtain j where j: "j < length xs" "xs ! j = b" by (auto simp: in_set_conv_nth)
  have "i \<noteq> j" using i j assms(5) by auto
  moreover have "\<not> j < i"
  proof
    assume "j < i"
    then have "R (xs ! j) (xs ! i)" using assms(1) i(1) by (simp add: sorted_wrt_nth_less)
    then show False using i j assms(4) by simp
  qed
  ultimately have "i < j" by simp
  then show ?thesis using i j by blast
qed

lemma mixed_sensor_data:
  "sensor_data (mixed_detector forest) = [(''s1'', mixed_s1), (''s2'', mixed_s2)]"
  by (simp add: mixed_detector_def update_network_graph_def mixed_calls_def mixed_s1_def mixed_s2_def
        AnomalyDetector_default_def AnomalyDetector_init_def add_sensor_readings_def
        add_sensor_reading_def Let_def example_call_def)

lemma mixed_fields:
  "min_samples_for_detection (mixed_detector forest) = 20"
  "energy_spike_threshold (mixed_detector forest) = 2"
  "network_analysis (mixed_detector forest)"
  "network_graph (mixed_detector forest) = Some \<lparr> nodes = [''s1'', ''s2''], edges = [] \<rparr>"
  "isolation_forest (mixed_detector forest) = forest"
  "detected_anomalies (mixed_detector forest) = []"
  by (simp_all add: mixed_detector_def update_network_graph_def add_sensor_readings_frame
        AnomalyDetector_default_def AnomalyDetector_init_def)

lemma mixed_lookup:
  "lookup (mixed_detector forest) ''s1'' = Inr mixed_s1"
  "lookup (mixed_detector forest) ''s2'' = Inr mixed_s2"
  by (simp_all add: lookup_def mixed_sensor_data)

lemma mixed_energy:
  "detect_energy_anomalies (mixed_detector forest) ''s1'' =
     Inr [energy_anomaly ''s1'' (last mixed_s1) (5 / 2) 20 2]"
proof -
  have vals: "map r_value mixed_s1 =
      [18, 22, 18, 22, 18, 22, 18, 22, 18, 22, 25, 25, 25, 25, 25, 25, 25, 25, 25, 25]"
    by (simp add: mixed_s1_def make_reading_def example_call_def)
  have hist: "but_last_n 10 (map r_value mixed_s1) = [18, 22, 18, 22, 18, 22, 18, 22, 18, 22]"
    by (simp add: vals but_last_n_def)
  have recent: "last_n 10 (map r_value mixed_s1) = [25, 25, 25, 25, 25, 25, 25, 25, 25, 25]"
    by (simp add: vals last_n_def)
  have m1: "np_mean [18, 22, 18, 22, 18, 22, 18, 22, 18, 22] = 20" by (simp add: np_mean_def)
  have s1: "np_std [18, 22, 18, 22, 18, 22, 18, 22, 18, 22] = 2"
    by (simp add: np_std_def np_mean_def)
  have m2: "np_mean [25, 25, 25, 25, 25, 25, 25, 25, 25, 25] = 25" by (simp add: np_mean_def)
  have ty: "is_energy_sensor (r_sensor_type (last mixed_s1))"
    by (simp add: mixed_s1_def is_energy_sensor_def make_reading_def example_call_def)
  have ne: "mixed_s1 \<noteq> []" by (simp add: mixed_s1_def)
  have len: "length mixed_s1 = 20" by (simp add: mixed_s1_def)
  show ?thesis
    using ty ne len
    by (simp add: detect_energy_anomalies_def mixed_lookup latest_def Let_def hist recent m1 s1 m2
          fdiv_def mixed_fields)
qed

lemma mixed_temporal: "detect_temporal_anomalies (mixed_detector forest) ''s1'' = Inr []"
  by (simp add: detect_temporal_anomalies_def mixed_lookup mixed_s1_def)

lemma mixed_correlation: "detect_correlation_anomalies (mixed_detector forest) ''s1'' = Inr []"
  by (simp add: detect_correlation_anomalies_def mixed_lookup mixed_sensor_data latest_def
        mixed_fields mixed_s1_def mixed_s2_def)

lemma mixed_network:
  "detect_network_anomalies (mixed_detector forest) =
     [network_anomaly ''s1'' mixed_s1, network_anomaly ''s2'' mixed_s2]"
  by (simp add: detect_network_anomalies_def mixed_fields graph_truthy_def isolated_nodes_def
        degree_def mixed_sensor_data mixed_s1_def mixed_s2_def)

lemma mixed_detect_sensors:
  "\<exists>iso. detect_sensors (mixed_detector forest) [''s1'', ''s2''] =
     Inr (iso @ [energy_anomaly ''s1'' (last mixed_s1) (5 / 2) 20 2])"
proof -
  have l1: "length mixed_s1 = 20" by (simp add: mixed_s1_def)
  have l2: "length mixed_s2 = 1" by (simp add: mixed_s2_def)
  have ne: "mixed_s1 \<noteq> []" by (simp add: mixed_s1_def)
  show ?thesis
    using ne
    by (simp add: mixed_lookup mixed_fields l1 l2 detect_isolation_forest_anomalies_def
          mixed_energy mixed_temporal mixed_correlation)
qed

text \<open>
  C1. The failing input: whatever the isolation forest flags, a detection run on the
  detector above returns the \<open>MEDIUM\<close> energy-spike anomaly of \<open>s1\<close> at an earlier
  position than the \<open>HIGH\<close> network-isolation anomaly of \<open>s2\<close>: the list is sorted
  by the severity's string value (\<open>''medium'' > ''low'' > ''high'' > ''critical''\<close>),
  not by severity rank.
\<close>

theorem C1_sorted_by_label_not_rank:
  "case detect_anomalies (mixed_detector forest) None of
     Inl e \<Rightarrow> False
   | Inr (returned, d') \<Rightarrow>
       (\<exists>i j. i < j \<and> j < length returned \<and>
              severity (returned ! i) = MEDIUM \<and> anomaly_type (returned ! i) = ENERGY_SPIKE \<and>
              severity (returned ! j) = HIGH \<and> anomaly_type (returned ! j) = NETWORK_ISOLATION)"
proof -
  let ?m = "energy_anomaly ''s1'' (last mixed_s1) (5 / 2) 20 2"
  let ?h = "network_anomaly ''s2'' mixed_s2"
  obtain iso where iso: "detect_sensors (mixed_detector forest) [''s1'', ''s2''] = Inr (iso @ [?m])"
    using mixed_detect_sensors by blast
  let ?detected = "(iso @ [?m]) @ [network_anomaly ''s1'' mixed_s1, ?h]"
  let ?returned = "sort_reverse anomaly_sort_key ?detected"
  have res: "detect_anomalies (mixed_detector forest) None =
      Inr (?returned, (mixed_detector forest)\<lparr>detected_anomalies := ?detected\<rparr>)"
    by (simp add: detect_anomalies_def mixed_sensor_data iso mixed_fields graph_truthy_def
          mixed_network Let_def del: detect_sensors.simps)
  have sorted: "sorted_wrt (\<lambda>a b. anomaly_sort_key a \<ge> anomaly_sort_key b) ?returned"
    by (rule sort_reverse_sorted)
  have m_in: "?m \<in> set ?returned" and h_in: "?h \<in> set ?returned" by simp_all
  have sev: "severity ?m = MEDIUM" "anomaly_type ?m = ENERGY_SPIKE"
            "severity ?h = HIGH" "anomaly_type ?h = NETWORK_ISOLATION"
    by (simp_all add: energy_anomaly_def network_anomaly_def)
  have neq: "?m \<noteq> ?h" using sev by (metis SeverityLevel.distinct(7))
  have key: "\<not> anomaly_sort_key ?h \<ge> anomaly_sort_key ?m"
    by (simp add: anomaly_sort_key_def sev less_eq_prod_def)
  from sorted_wrt_position [OF sorted m_in h_in key neq]
  obtain i j where ij: "i < j" "j < length ?returned" "?returned ! i = ?m" "?returned ! j = ?h"
    by blast
  have "\<exists>i j. i < j \<and> j < length ?returned \<and>
              severity (?returned ! i) = MEDIUM \<and> anomaly_type (?returned ! i) = ENERGY_SPIKE \<and>
              severity (?returned ! j) = HIGH \<and> anomaly_type (?returned ! j) = NETWORK_ISOLATION"
    using ij sev by (intro exI [of _ i] exI [of _ j]) simp
  then show ?thesis by (simp add: res)
qed

section \<open>Which sensors the returned anomalies refer to\<close>

lemma isolation_sensor_id:
  "detect_isolation_forest_anomalies d sid = Inr xs \<Longrightarrow> a \<in> set xs \<Longrightarrow> sensor_id a = sid"
  by (auto simp: detect_isolation_forest_anomalies_def isolation_anomaly_def Let_def
        split: sum.splits if_splits)

lemma energy_sensor_id:
  "detect_energy_anomalies d sid = Inr xs \<Longrightarrow> a \<in> set xs \<Longrightarrow> sensor_id a = sid"
  by (auto simp: detect_energy_anomalies_def energy_anomaly_def Let_def
        split: sum.splits if_splits)

lemma temporal_sensor_id:
  "detect_temporal_anomalies d sid = Inr xs \<Longrightarrow> a \<in> set xs \<Longrightarrow> sensor_id a = sid"
  by (auto simp: detect_temporal_anomalies_def temporal_anomaly_def
        split: sum.splits if_splits option.splits prod.splits)

lemma analyze_sensor_id:
  "analyze_sensor_correlation d s1 s2 = Inr (Some a) \<Longrightarrow> sensor_id a = s1"
  by (auto simp: analyze_sensor_correlation_def correlation_anomaly_def Let_def
        split: sum.splits if_splits option.splits)

lemma analyze_correlated_sensor_id:
  "analyze_correlated d sid others = Inr xs \<Longrightarrow> a \<in> set xs \<Longrightarrow> sensor_id a = sid"
proof (induction others arbitrary: xs)
  case Nil
  then show ?case by simp
next
  case (Cons other others)
  then show ?case
    by (auto split: sum.splits option.splits dest: analyze_sensor_id)
qed

lemma correlation_sensor_id:
  "detect_correlation_anomalies d sid = Inr xs \<Longrightarrow> a \<in> set xs \<Longrightarrow> sensor_id a = sid"
  by (auto simp: detect_correlation_anomalies_def
        split: sum.splits if_splits dest: analyze_correlated_sensor_id)

lemma detect_sensors_sound:
  "detect_sensors d ids = Inr xs \<Longrightarrow> a \<in> set xs \<Longrightarrow>
   sensor_id a \<in> set ids \<and>
   (\<exists>rs. map_of (sensor_data d) (sensor_id a) = Some rs \<and>
         min_samples_for_detection d \<le> int (length rs))"
proof (induction ids arbitrary: xs)
  case Nil
  then show ?case by simp
next
  case (Cons sid sids)
  from Cons.prems(1) obtain rs where rs: "map_of (sensor_data d) sid = Some rs"
    by (auto simp: lookup_def split: option.splits)
  show ?case
  proof (cases "int (length rs) < min_samples_for_detection d")
    case True
    with Cons rs show ?thesis by (auto simp: lookup_def)
  next
    case False
    from Cons.prems(1) rs False obtain iso en te co rest where parts:
      "detect_isolation_forest_anomalies d sid = Inr iso"
      "detect_energy_anomalies d sid = Inr en"
      "detect_temporal_anomalies d sid = Inr te"
      "detect_correlation_anomalies d sid = Inr co"
      "detect_sensors d sids = Inr rest"
      "xs = iso @ en @ te @ co @ rest"
      by (auto simp: lookup_def split: sum.splits)
    from Cons.prems(2) parts(6) consider
      "a \<in> set iso" | "a \<in> set en" | "a \<in> set te" | "a \<in> set co" | "a \<in> set rest"
      by auto
    then show ?thesis
    proof cases
      case 1
      then have "sensor_id a = sid" using parts(1) by (rule isolation_sensor_id [rotated])
      then show ?thesis using rs False by simp
    next
      case 2
      then have "sensor_id a = sid" using parts(2) by (rule energy_sensor_id [rotated])
      then show ?thesis using rs False by simp
    next
      case 3
      then have "sensor_id a = sid" using parts(3) by (rule temporal_sensor_id [rotated])
      then show ?thesis using rs False by simp
    next
      case 4
      then have "sensor_id a = sid" using parts(4) by (rule correlation_sensor_id [rotated])
      then show ?thesis using rs False by simp
    next
      case 5
      then show ?thesis using Cons.IH [OF parts(5)] by auto
    qed
  qed
qed

lemma network_sound:
  assumes "a \<in> set (detect_network_anomalies d)"
  shows "\<exists>g rs. network_graph d = Some g \<and> sensor_id a \<in> set (nodes g) \<and>
           degree g (sensor_id a) = 0 \<and>
           map_of (sensor_data d) (sensor_id a) = Some rs \<and> rs \<noteq> [] \<and>
           anomaly_type a = NETWORK_ISOLATION \<and> severity a = HIGH \<and> confidence a = 1.0"
proof -
  define per_node where "per_node = (\<lambda>sid. case map_of (sensor_data d) sid of
                        None \<Rightarrow> []
                      | Some readings \<Rightarrow>
                          if readings = [] then [] else [network_anomaly sid readings])"
  from assms obtain g where g: "network_graph d = Some g"
    by (cases "network_graph d") (simp_all add: detect_network_anomalies_def graph_truthy_def)
  from assms g have "a \<in> set (concat (map per_node (isolated_nodes g)))"
    by (cases "graph_truthy (network_graph d)")
       (simp_all add: detect_network_anomalies_def per_node_def)
  then obtain sid where sid: "sid \<in> set (isolated_nodes g)" and a: "a \<in> set (per_node sid)"
    by auto
  from a obtain rs where rs: "map_of (sensor_data d) sid = Some rs" "rs \<noteq> []"
    and a': "a = network_anomaly sid rs"
    unfolding per_node_def by (cases "map_of (sensor_data d) sid") (auto split: if_splits)
  have "sensor_id a = sid" using a' by (simp add: network_anomaly_def)
  moreover have "anomaly_type a = NETWORK_ISOLATION \<and> severity a = HIGH \<and> confidence a = 1.0"
    using a' by (simp add: network_anomaly_def)
  ultimately show ?thesis
    using g sid rs by (auto simp: isolated_nodes_def)
qed

text \<open>
  C2. The claim fails: the two sensors of the example hold one reading each, far fewer
  than \<open>min_samples_for_detection = 20\<close>, and the returned list holds an anomaly for
  each of them (from the network-isolation check).
\<close>

theorem C2_isolated_sensor_below_minimum:
  "case detect_anomalies isolated_detector None of
     Inl e \<Rightarrow> False
   | Inr (returned, d') \<Rightarrow>
       map sensor_id returned = [''s2'', ''s1''] \<and>
       int (length (stored isolated_detector ''s2'')) = 1 \<and>
       min_samples_for_detection isolated_detector = 20"
  by (simp add: detect_isolated_detector network_anomaly_def stored_def)
     (simp add: isolated_detector_def update_network_graph_def AnomalyDetector_default_def
        AnomalyDetector_init_def add_sensor_readings_def add_sensor_reading_def Let_def
        example_call_def)

text \<open>
  C2, as amended. Every anomaly that \<open>detect_anomalies\<close> returns refers to a sensor of
  the data store, and either that sensor holds at least \<open>min_samples_for_detection\<close>
  readings, or network analysis is enabled and the anomaly is the \<open>HIGH\<close>,
  confidence-1 \<open>NETWORK_ISOLATION\<close> anomaly of a graph node of degree 0 that holds at
  least one reading.
\<close>

theorem C2_detection_threshold_or_isolated:
  assumes "detect_anomalies d ids = Inr (returned, d')"
    and "a \<in> set returned"
  shows "\<exists>rs. map_of (sensor_data d) (sensor_id a) = Some rs \<and>
           (min_samples_for_detection d \<le> int (length rs) \<or>
            (rs \<noteq> [] \<and> network_analysis d \<and>
             anomaly_type a = NETWORK_ISOLATION \<and> severity a = HIGH \<and> confidence a = 1.0 \<and>
             (\<exists>g. network_graph d = Some g \<and> sensor_id a \<in> set (nodes g) \<and>
                  degree g (sensor_id a) = 0)))"
proof -
  let ?ids = "case ids of None \<Rightarrow> map fst (sensor_data d) | Some l \<Rightarrow> l"
  from assms(1) obtain per where per: "detect_sensors d ?ids = Inr per"
    and ret: "returned = sort_reverse anomaly_sort_key
                (per @ (if network_analysis d \<and> graph_truthy (network_graph d)
                        then detect_network_anomalies d else []))"
    by (auto simp: detect_anomalies_def Let_def split: sum.splits)
  from assms(2) ret consider "a \<in> set per"
    | "network_analysis d" "a \<in> set (detect_network_anomalies d)"
    by (auto split: if_splits)
  then show ?thesis
  proof cases
    case 1
    from detect_sensors_sound [OF per 1] show ?thesis by blast
  next
    case 2
    from network_sound [OF 2(2)] 2(1) show ?thesis by blast
  qed
qed

theorem C2_detection_threshold_or_isolated_witness:
  "\<exists>rs. map_of (sensor_data isolated_detector) ''s2'' = Some rs \<and> length rs = 1 \<and>
        network_analysis isolated_detector \<and>
        (\<exists>g. network_graph isolated_detector = Some g \<and> degree g ''s2'' = 0)"
proof -
  let ?a = "network_anomaly ''s2'' [make_reading (example_call ''s2'' (example_day + hours_us 2) 7)]"
  have in_ret: "?a \<in> set [?a,
      network_anomaly ''s1'' [make_reading (example_call ''s1'' (example_day + hours_us 1) 5)]]"
    by simp
  have sid: "sensor_id ?a = ''s2''" by (simp add: network_anomaly_def)
  have data: "sensor_data isolated_detector =
     [(''s1'', [make_reading (example_call ''s1'' (example_day + hours_us 1) 5)]),
      (''s2'', [make_reading (example_call ''s2'' (example_day + hours_us 2) 7)])]"
    by (simp add: isolated_detector_def update_network_graph_def AnomalyDetector_default_def
        AnomalyDetector_init_def add_sensor_readings_def add_sensor_reading_def Let_def
        example_call_def)
  have ms: "min_samples_for_detection isolated_detector = 20"
    by (simp add: isolated_detector_def update_network_graph_def add_sensor_readings_frame
        AnomalyDetector_default_def AnomalyDetector_init_def)
  from C2_detection_threshold_or_isolated [OF detect_isolated_detector in_ret]
  show ?thesis by (auto simp: sid data ms)
qed

section \<open>Errors of \<open>detect_anomalies\<close>\<close>

lemma add_sensor_reading_alt:
  "sensor_data (add_sensor_reading d c) =
     AList.update (c_sensor_id c)
       (let appended = stored d (c_sensor_id c) @ [make_reading c]
        in if int (length appended) > window_size d then tl appended else appended)
       (sensor_data d)"
  by (cases "map_of (sensor_data d) (c_sensor_id c)")
     (simp_all add: add_sensor_reading_def stored_def Let_def update_conv')

lemma list_all_update:
  "P (k, v) \<Longrightarrow> list_all P al \<Longrightarrow> list_all P (AList.update k v al)"
  by (induction al) auto

lemma windows_nonempty_add:
  assumes "1 \<le> window_size d" and "windows_nonempty d"
  shows "windows_nonempty (add_sensor_reading d c)"
proof -
  let ?appended = "stored d (c_sensor_id c) @ [make_reading c]"
  have "(if int (length ?appended) > window_size d then tl ?appended else ?appended) \<noteq> []"
    using assms(1) by (cases "stored d (c_sensor_id c)") auto
  then show ?thesis
    using assms(2)
    by (simp add: windows_nonempty_def add_sensor_reading_alt Let_def list_all_update)
qed

lemma windows_nonempty_reachable:
  assumes "1 \<le> ws"
  shows "windows_nonempty (add_sensor_readings (AnomalyDetector_init forest ws cont ms net) cs)"
proof (induction cs rule: rev_induct)
  case Nil
  then show ?case
    by (simp add: add_sensor_readings_def windows_nonempty_def AnomalyDetector_init_def)
next
  case (snoc c cs)
  then show ?case
    using assms by (simp add: add_sensor_readings_snoc windows_nonempty_add)
qed

lemma keys_add_sensor_readings:
  "fst ` set (sensor_data (add_sensor_readings d cs)) =
     fst ` set (sensor_data d) \<union> c_sensor_id ` set cs"
proof (induction cs rule: rev_induct)
  case Nil
  then show ?case by (simp add: add_sensor_readings_def)
next
  case (snoc c cs)
  then show ?case
    by (auto simp: add_sensor_readings_snoc add_sensor_reading_alt dom_update)
qed

lemma present_iff_received:
  "map_of (sensor_data (add_sensor_readings (AnomalyDetector_init forest ws cont ms net) cs)) sid = None
   \<longleftrightarrow> sid \<notin> c_sensor_id ` set cs"
  by (simp add: map_of_eq_None_iff keys_add_sensor_readings AnomalyDetector_init_def)













section \<open>Confidence of the correlation check\<close>

lemma stored_update:
  "sensor_data d' = AList.update sid rs (sensor_data d) \<Longrightarrow> stored d' sid = rs"
  by (simp add: stored_def update_conv')

lemma add_sensor_readings_one_sensor:
  assumes "list_all (\<lambda>c. c_sensor_id c = sid) cs" and "cs \<noteq> []"
    and "int (length (stored d sid)) + int (length cs) \<le> window_size d"
  shows "sensor_data (add_sensor_readings d cs) =
           AList.update sid (stored d sid @ map make_reading cs) (sensor_data d)"
  using assms
proof (induction cs rule: rev_induct)
  case Nil
  then show ?case by simp
next
  case (snoc c cs)
  have sid: "c_sensor_id c = sid" using snoc.prems(1) by simp
  show ?case
  proof (cases "cs = []")
    case True
    then show ?thesis
      using snoc.prems(3) sid
      by (simp add: add_sensor_readings_def add_sensor_reading_alt Let_def)
  next
    case False
    have IH: "sensor_data (add_sensor_readings d cs) =
           AList.update sid (stored d sid @ map make_reading cs) (sensor_data d)"
      using snoc.IH snoc.prems False by simp
    have st: "stored (add_sensor_readings d cs) sid = stored d sid @ map make_reading cs"
      using IH by (rule stored_update)
    show ?thesis
      using snoc.prems(3) sid
      by (simp add: add_sensor_readings_snoc add_sensor_reading_alt st IH Let_def)
  qed
qed

lemma update_fresh: "k \<notin> fst ` set al \<Longrightarrow> AList.update k v al = al @ [(k, v)]"
  by (induction al) auto

lemma timestamp_dict_distinct:
  "distinct (map r_timestamp rs) \<Longrightarrow> timestamp_dict rs = map (\<lambda>r. (r_timestamp r, r_value r)) rs"
proof (induction rs rule: rev_induct)
  case Nil
  then show ?case by (simp add: timestamp_dict_def)
next
  case (snoc r rs)
  then have IH: "timestamp_dict rs = map (\<lambda>r. (r_timestamp r, r_value r)) rs" by simp
  have fresh: "r_timestamp r \<notin> fst ` set (timestamp_dict rs)"
    using snoc.prems by (auto simp: IH)
  have "timestamp_dict (rs @ [r]) = AList.update (r_timestamp r) (r_value r) (timestamp_dict rs)"
    by (simp add: timestamp_dict_def)
  also have "\<dots> = timestamp_dict rs @ [(r_timestamp r, r_value r)]"
    using fresh by (rule update_fresh)
  finally show ?case by (simp add: IH)
qed

lemma corr_calls_sensor: "list_all (\<lambda>c. c_sensor_id c = sid) (corr_calls sid vals)"
  by (auto simp: corr_calls_def list_all_iff zone_call_def dest!: set_zip_leftD set_zip_rightD
        elim!: in_set_zipE)

lemma corr_sensor_data:
  "sensor_data (corr_detector forest) =
     [(''s1'', corr_readings ''s1'' corr_values1), (''s2'', corr_readings ''s2'' corr_values2)]"
proof -
  let ?d0 = "AnomalyDetector_default forest"
  let ?d1 = "add_sensor_readings ?d0 (corr_calls ''s1'' corr_values1)"
  have l1: "length (corr_calls ''s1'' corr_values1) = 20"
    and l2: "length (corr_calls ''s2'' corr_values2) = 20"
    by (simp_all add: corr_calls_def corr_hours_def corr_values1_def corr_values2_def)
  have ne1: "corr_calls ''s1'' corr_values1 \<noteq> []" and ne2: "corr_calls ''s2'' corr_values2 \<noteq> []"
    using l1 l2 by auto
  have w0: "window_size ?d0 = 50" "sensor_data ?d0 = []"
    by (simp_all add: AnomalyDetector_default_def AnomalyDetector_init_def)
  have s0: "stored ?d0 ''s1'' = []" by (simp add: stored_def w0)
  have d1: "sensor_data ?d1 = [(''s1'', corr_readings ''s1'' corr_values1)]"
    using add_sensor_readings_one_sensor [OF corr_calls_sensor ne1, of ?d0] l1 w0 s0
    by (simp add: corr_readings_def)
  have s1: "stored ?d1 ''s2'' = []" by (simp add: stored_def d1)
  have w1: "window_size ?d1 = 50" by (simp add: w0)
  have "sensor_data (add_sensor_readings ?d1 (corr_calls ''s2'' corr_values2)) =
        [(''s1'', corr_readings ''s1'' corr_values1), (''s2'', corr_readings ''s2'' corr_values2)]"
    using add_sensor_readings_one_sensor [OF corr_calls_sensor ne2, of ?d1] l2 w1 s1
    by (simp add: corr_readings_def d1)
  then show ?thesis
    by (simp add: corr_detector_def add_sensor_readings_def)
qed

lemma corr_readings1:
  "map (\<lambda>r. (r_timestamp r, r_value r)) (corr_readings ''s1'' corr_values1) =
     map2 (\<lambda>k v. (example_day + hours_us k, v)) corr_hours corr_values1"
  by (simp add: corr_readings_def corr_calls_def corr_hours_def corr_values1_def make_reading_def
        zone_call_def)

lemma corr_readings2:
  "map (\<lambda>r. (r_timestamp r, r_value r)) (corr_readings ''s2'' corr_values2) =
     map2 (\<lambda>k v. (example_day + hours_us k, v)) corr_hours corr_values2"
  by (simp add: corr_readings_def corr_calls_def corr_hours_def corr_values2_def make_reading_def
        zone_call_def)

lemma corr_distinct:
  "distinct (map r_timestamp (corr_readings ''s1'' corr_values1))"
  "distinct (map r_timestamp (corr_readings ''s2'' corr_values2))"
  by (simp_all add: corr_readings_def corr_calls_def corr_hours_def corr_values1_def
        corr_values2_def make_reading_def zone_call_def hours_us_def)

lemma corr_align:
  "align_sensor_readings (corr_readings ''s1'' corr_values1) (corr_readings ''s2'' corr_values2)
     = zip corr_values1 corr_values2"
  unfolding align_sensor_readings_def timestamp_dict_distinct [OF corr_distinct(1)]
    timestamp_dict_distinct [OF corr_distinct(2)] corr_readings1 corr_readings2
  by (simp add: corr_values1_def corr_values2_def corr_hours_def hours_us_def
        total_seconds_def Let_def)

lemma corrcoef_equal_variance:
  assumes "np_cov xs xs = v" and "np_cov ys ys = v" and "0 < v"
  shows "np_corrcoef xs ys = Some (max (- 1) (min 1 (np_cov xs ys / v)))"
proof -
  have "np_cov xs ys / sqrt v / sqrt v = np_cov xs ys / v"
    using assms(3) by (simp add: divide_divide_eq_left)
  then show ?thesis
    using assms by (simp add: np_corrcoef_def Let_def)
qed

lemma corr_full: "np_corrcoef corr_values1 corr_values2 = Some (- (1184 / 1217))"
proof -
  have m1: "np_mean corr_values1 = 9 / 2" by (simp add: np_mean_def corr_values1_def)
  have m2: "np_mean corr_values2 = 9 / 2" by (simp add: np_mean_def corr_values2_def)
  have c11: "np_cov corr_values1 corr_values1 = 6085 / 19"
    unfolding np_cov_def m1 by (simp add: corr_values1_def)
  have c22: "np_cov corr_values2 corr_values2 = 6085 / 19"
    unfolding np_cov_def m2 by (simp add: corr_values2_def)
  have c12: "np_cov corr_values1 corr_values2 = - (5920 / 19)"
    unfolding np_cov_def m1 m2 by (simp add: corr_values1_def corr_values2_def)
  show ?thesis
    using corrcoef_equal_variance [OF c11 c22] by (simp add: c12)
qed

lemma corr_recent:
  "np_corrcoef (last_n 10 corr_values1) (last_n 10 corr_values2) = Some 1"
proof -
  have r1: "last_n 10 corr_values1 = [0, 1, 2, 3, 4, 5, 6, 7, 8, 9]"
    by (simp add: last_n_def corr_values1_def)
  have r2: "last_n 10 corr_values2 = [0, 1, 2, 3, 4, 5, 6, 7, 8, 9]"
    by (simp add: last_n_def corr_values2_def)
  have m: "np_mean [0, 1, 2, 3, 4, 5, 6, 7, 8, 9] = 9 / 2" by (simp add: np_mean_def)
  have c: "np_cov [0, 1, 2, 3, 4, 5, 6, 7, 8, 9] [0, 1, 2, 3, 4, 5, 6, 7, 8, 9] = 55 / 6"
    unfolding np_cov_def m by simp
  show ?thesis
    unfolding r1 r2 using corrcoef_equal_variance [OF c c] by (simp add: c)
qed

lemma corr_fields:
  "min_samples_for_detection (corr_detector forest) = 20"
  "network_analysis (corr_detector forest)"
  "network_graph (corr_detector forest) = None"
  "isolation_forest (corr_detector forest) = forest"
  "detected_anomalies (corr_detector forest) = []"
  by (simp_all add: corr_detector_def add_sensor_readings_frame AnomalyDetector_default_def
        AnomalyDetector_init_def)

lemma corr_lookup:
  "lookup (corr_detector forest) ''s1'' = Inr (corr_readings ''s1'' corr_values1)"
  "lookup (corr_detector forest) ''s2'' = Inr (corr_readings ''s2'' corr_values2)"
  by (simp_all add: lookup_def corr_sensor_data)

lemma corr_lengths:
  "length (corr_readings ''s1'' corr_values1) = 20"
  "length (corr_readings ''s2'' corr_values2) = 20"
  "corr_readings ''s1'' corr_values1 \<noteq> []"
  "corr_readings ''s2'' corr_values2 \<noteq> []"
  by (simp_all add: corr_readings_def corr_calls_def corr_hours_def corr_values1_def
        corr_values2_def)

lemma corr_last:
  "r_zone_id (last (corr_readings sid corr_values1)) = Some ''zone_a''"
  "r_zone_id (last (corr_readings sid corr_values2)) = Some ''zone_a''"
  "r_sensor_type (last (corr_readings sid corr_values1)) = ''hvac_temperature''"
  by (simp_all add: corr_readings_def corr_calls_def corr_hours_def corr_values1_def
        corr_values2_def make_reading_def zone_call_def)

lemma corr_analyze:
  "analyze_sensor_correlation (corr_detector forest) ''s1'' ''s2'' =
     Inr (Some (correlation_anomaly ''s1'' ''s2'' (corr_readings ''s1'' corr_values1)
                  (last (corr_readings ''s1'' corr_values1)) (- (1184 / 1217)) 1))"
proof -
  have len: "length corr_values1 = 20" "length corr_values2 = 20"
    by (simp_all add: corr_values1_def corr_values2_def)
  have v1: "map fst (zip corr_values1 corr_values2) = corr_values1"
    and v2: "map snd (zip corr_values1 corr_values2) = corr_values2"
    by (simp_all add: corr_values1_def corr_values2_def)
  show ?thesis
    by (simp add: analyze_sensor_correlation_def corr_lookup corr_align len v1 v2 corr_full
          corr_recent latest_def corr_lengths Let_def)
qed

lemma corr_correlation:
  "detect_correlation_anomalies (corr_detector forest) ''s1'' =
     Inr [correlation_anomaly ''s1'' ''s2'' (corr_readings ''s1'' corr_values1)
            (last (corr_readings ''s1'' corr_values1)) (- (1184 / 1217)) 1]"
  by (simp add: detect_correlation_anomalies_def corr_lookup corr_sensor_data latest_def
        corr_lengths corr_fields corr_last zone_truthy_def corr_analyze)

lemma corr_energy: "detect_energy_anomalies (corr_detector forest) ''s1'' = Inr []"
  by (simp add: detect_energy_anomalies_def corr_lookup latest_def corr_lengths corr_last
        is_energy_sensor_def)

lemma corr_temporal: "detect_temporal_anomalies (corr_detector forest) ''s1'' = Inr []"
  by (simp add: detect_temporal_anomalies_def corr_lookup corr_lengths)

text \<open>
  C3. The failing input: on the two temperature sensors above, the full-window
  correlation is \<open>-1184/1217\<close> and the correlation of the last ten pairs is \<open>1\<close>,
  so the correlation check creates an anomaly whose confidence,
  \<open>|full_corr - recent_corr| = 2401/1217\<close>, is above 1; \<open>detect_anomalies\<close>
  returns it, whatever the isolation forest flags.
\<close>

theorem C3_correlation_confidence_above_one:
  "case detect_anomalies (corr_detector forest) (Some [''s1'']) of
     Inl e \<Rightarrow> False
   | Inr (returned, d') \<Rightarrow>
       (\<exists>a. a \<in> set returned \<and> sensor_id a = ''s1'' \<and> anomaly_type a = NETWORK_ISOLATION \<and>
            severity a = MEDIUM \<and> confidence a = 2401 / 1217 \<and> confidence a > 1)"
proof -
  let ?c = "correlation_anomaly ''s1'' ''s2'' (corr_readings ''s1'' corr_values1)
            (last (corr_readings ''s1'' corr_values1)) (- (1184 / 1217)) 1"
  obtain iso where iso: "detect_isolation_forest_anomalies (corr_detector forest) ''s1'' = Inr iso"
    by (auto simp: detect_isolation_forest_anomalies_def corr_lookup corr_lengths)
  have per: "detect_sensors (corr_detector forest) [''s1''] = Inr (iso @ [?c])"
    by (simp add: corr_lookup corr_lengths corr_fields iso corr_energy corr_temporal
          corr_correlation)
  have res: "detect_anomalies (corr_detector forest) (Some [''s1'']) =
      Inr (sort_reverse anomaly_sort_key (iso @ [?c]),
           (corr_detector forest)\<lparr>detected_anomalies := iso @ [?c]\<rparr>)"
    by (simp add: detect_anomalies_def per corr_fields graph_truthy_def Let_def
          del: detect_sensors.simps)
  have props: "sensor_id ?c = ''s1'' \<and> anomaly_type ?c = NETWORK_ISOLATION \<and>
            severity ?c = MEDIUM \<and> confidence ?c = 2401 / 1217 \<and> confidence ?c > 1"
    by (simp add: correlation_anomaly_def)
  have "?c \<in> set (sort_reverse anomaly_sort_key (iso @ [?c]))" by simp
  with props have "\<exists>a. a \<in> set (sort_reverse anomaly_sort_key (iso @ [?c])) \<and>
       sensor_id a = ''s1'' \<and> anomaly_type a = NETWORK_ISOLATION \<and>
       severity a = MEDIUM \<and> confidence a = 2401 / 1217 \<and> confidence a > 1"
    by blast
  then show ?thesis by (simp add: res)
qed

section \<open>Further properties of the code\<close>

lemma sort_reverse_length [simp]: "length (sort_reverse f xs) = length xs"
  by (simp add: sort_reverse_def)

text \<open>
  What the sort of \<open>detect_anomalies\<close> guarantees: the returned list is in descending
  order of the pair (severity string, timestamp); it holds the anomalies that the call
  appended to the store; and among anomalies of equal severity the more recent one
  comes first.
\<close>

theorem returned_sorted_by_label_then_time:
  assumes "detect_anomalies d ids = Inr (returned, d')"
  shows "sorted_wrt (\<lambda>a b. anomaly_sort_key b \<le> anomaly_sort_key a) returned \<and>
         (\<exists>detected. detected_anomalies d' = detected_anomalies d @ detected \<and>
                     set returned = set detected \<and> length returned = length detected) \<and>
         (\<forall>i j. i < j \<and> j < length returned \<and> severity (returned ! i) = severity (returned ! j)
                \<longrightarrow> timestamp (returned ! j) \<le> timestamp (returned ! i))"
proof -
  from assms obtain detected where ret: "returned = sort_reverse anomaly_sort_key detected"
    and st: "d' = d\<lparr>detected_anomalies := detected_anomalies d @ detected\<rparr>"
    by (auto simp: detect_anomalies_def Let_def split: sum.splits)
  have sorted: "sorted_wrt (\<lambda>a b. anomaly_sort_key b \<le> anomaly_sort_key a) returned"
    unfolding ret by (rule sort_reverse_sorted)
  have store: "\<exists>detected. detected_anomalies d' = detected_anomalies d @ detected \<and>
                     set returned = set detected \<and> length returned = length detected"
    using ret st by (intro exI [of _ detected]) simp
  have ties: "timestamp (returned ! j) \<le> timestamp (returned ! i)"
    if "i < j" "j < length returned" "severity (returned ! i) = severity (returned ! j)" for i j
  proof -
    have "anomaly_sort_key (returned ! j) \<le> anomaly_sort_key (returned ! i)"
      by (rule sorted_wrt_nth_less [OF sorted that(1,2)])
    then show ?thesis
      using that(3) by (simp add: anomaly_sort_key_def less_eq_prod_def)
  qed
  from sorted store ties show ?thesis by blast
qed

theorem returned_sorted_by_label_then_time_witness:
  "\<exists>returned d'. detect_anomalies isolated_detector None = Inr (returned, d') \<and>
     map timestamp returned = [example_day + hours_us 2, example_day + hours_us 1] \<and>
     timestamp (returned ! 1) \<le> timestamp (returned ! 0)"
  using returned_sorted_by_label_then_time [OF detect_isolated_detector]
  by (simp add: detect_isolated_detector network_anomaly_def make_reading_def example_call_def
        hours_us_def)

lemma corrcoef_range:
  "np_corrcoef xs ys = Some r \<Longrightarrow> - 1 \<le> r \<and> r \<le> 1"
  by (auto simp: np_corrcoef_def Let_def split: if_splits)

lemma analyze_confidence:
  "analyze_sensor_correlation d s1 s2 = Inr (Some a) \<Longrightarrow> 1 / 2 < confidence a \<and> confidence a \<le> 2"
  by (auto simp: analyze_sensor_correlation_def correlation_anomaly_def Let_def
        split: sum.splits if_splits option.splits dest!: corrcoef_range)

lemma analyze_correlated_confidence:
  "analyze_correlated d sid others = Inr xs \<Longrightarrow> a \<in> set xs \<Longrightarrow>
   1 / 2 < confidence a \<and> confidence a \<le> 2"
proof (induction others arbitrary: xs)
  case Nil
  then show ?case by simp
next
  case (Cons other others)
  from Cons.prems(1) obtain r rest where
    r: "analyze_sensor_correlation d sid other = Inr r"
    and rest: "analyze_correlated d sid others = Inr rest"
    and xs: "xs = (case r of None \<Rightarrow> [] | Some a \<Rightarrow> [a]) @ rest"
    by (auto split: sum.splits)
  from Cons.prems(2) xs consider "r = Some a" | "a \<in> set rest"
    by (cases r) auto
  then show ?case
  proof cases
    case 1
    with r have "analyze_sensor_correlation d sid other = Inr (Some a)" by simp
    then show ?thesis by (rule analyze_confidence)
  next
    case 2
    from Cons.IH [OF rest 2] show ?thesis .
  qed
qed

lemma temporal_form:
  assumes "detect_temporal_anomalies d sid = Inr xs" and "a \<in> set xs"
  shows "\<exists>lr dev em es. a = temporal_anomaly sid lr dev em es \<and> 0 \<le> dev"
proof -
  from assms obtain rs lr em es where
    parts: "lookup d sid = Inr rs" "latest rs = Inr lr"
      "map_of (hourly_patterns rs) (hour (r_timestamp lr)) = Some (em, es)" "0 < es"
      and a: "a = temporal_anomaly sid lr (\<bar>r_value lr - em\<bar> / es) em es"
    by (auto simp: detect_temporal_anomalies_def fdiv_def
          split: sum.splits if_splits option.splits prod.splits)
  have "0 \<le> \<bar>r_value lr - em\<bar> / es" using parts(4) by simp
  with a show ?thesis by blast
qed

text \<open>
  Confidence by check: the isolation-forest, energy, temporal and network-isolation
  checks create anomalies with confidence in \<open>[0, 1]\<close>; the correlation check creates
  anomalies with confidence in \<open>(0.5, 2]\<close>.
\<close>

theorem checks_confidence_bounds:
  assumes "a \<in> set xs"
  shows "(detect_isolation_forest_anomalies d sid = Inr xs \<or>
          detect_energy_anomalies d sid = Inr xs \<or>
          detect_temporal_anomalies d sid = Inr xs \<or>
          detect_network_anomalies d = xs \<longrightarrow> 0 \<le> confidence a \<and> confidence a \<le> 1) \<and>
         (detect_correlation_anomalies d sid = Inr xs \<longrightarrow>
            1 / 2 < confidence a \<and> confidence a \<le> 2)"
proof -
  have iso: "0 \<le> confidence a \<and> confidence a \<le> 1"
    if "detect_isolation_forest_anomalies d sid = Inr xs"
    using that assms
    by (auto simp: detect_isolation_forest_anomalies_def isolation_anomaly_def Let_def
          split: sum.splits if_splits)
  have en: "0 \<le> confidence a \<and> confidence a \<le> 1"
    if "detect_energy_anomalies d sid = Inr xs"
    using that assms
    by (auto simp: detect_energy_anomalies_def energy_anomaly_def Let_def
          split: sum.splits if_splits)
  have te: "0 \<le> confidence a \<and> confidence a \<le> 1"
    if "detect_temporal_anomalies d sid = Inr xs"
  proof -
    from temporal_form [OF that assms] obtain lr dev em es
      where "a = temporal_anomaly sid lr dev em es" "0 \<le> dev" by blast
    then show ?thesis by (simp add: temporal_anomaly_def)
  qed
  have ne: "0 \<le> confidence a \<and> confidence a \<le> 1"
    if "detect_network_anomalies d = xs"
    using network_sound [of a d] that assms by auto
  have co: "1 / 2 < confidence a \<and> confidence a \<le> 2"
    if "detect_correlation_anomalies d sid = Inr xs"
    using that assms
    by (auto simp: detect_correlation_anomalies_def
          split: sum.splits if_splits dest: analyze_correlated_confidence)
  from iso en te ne co show ?thesis by blast
qed

theorem checks_confidence_bounds_witness:
  "detect_correlation_anomalies (corr_detector no_outliers) ''s1'' =
     Inr [correlation_anomaly ''s1'' ''s2'' (corr_readings ''s1'' corr_values1)
            (last (corr_readings ''s1'' corr_values1)) (- (1184 / 1217)) 1] \<and>
   1 / 2 < confidence (correlation_anomaly ''s1'' ''s2'' (corr_readings ''s1'' corr_values1)
            (last (corr_readings ''s1'' corr_values1)) (- (1184 / 1217)) 1) \<and>
   confidence (correlation_anomaly ''s1'' ''s2'' (corr_readings ''s1'' corr_values1)
            (last (corr_readings ''s1'' corr_values1)) (- (1184 / 1217)) 1) \<le> 2"
proof -
  let ?c = "correlation_anomaly ''s1'' ''s2'' (corr_readings ''s1'' corr_values1)
            (last (corr_readings ''s1'' corr_values1)) (- (1184 / 1217)) 1"
  have mem: "?c \<in> set [?c]" by simp
  from checks_confidence_bounds [OF mem, of "corr_detector no_outliers" "''s1''"]
  show ?thesis by (simp add: corr_correlation)
qed

text \<open>
  \<open>most_recent\<close> of the summary: null when no stored anomaly lies in the window, and
  otherwise the timestamp of the first anomaly of the store (in insertion order) that
  lies in the window.
\<close>

theorem summary_most_recent_is_first_in_window:
  "case get_anomaly_summary now d hours of
     Inl e \<Rightarrow> e = OverflowError
   | Inr s \<Rightarrow>
       most_recent s =
         map_option timestamp
           (find (\<lambda>a. now - hours * 3600000000 \<le> timestamp a) (detected_anomalies d))"
proof -
  have hd_filter: "(if filter P xs \<noteq> [] then Some (f (hd (filter P xs))) else None)
      = map_option f (find P xs)" for P :: "Anomaly \<Rightarrow> bool" and f :: "Anomaly \<Rightarrow> datetime" and xs
    by (induction xs) auto
  show ?thesis
    by (simp add: get_anomaly_summary_def timedelta_hours_def datetime_sub_def summary_of_def
          recent_anomalies_def hd_filter split: sum.splits if_splits)
qed

theorem summary_most_recent_is_first_in_window_witness:
  "case get_anomaly_summary (example_day + hours_us 3)
          (isolated_detector\<lparr>detected_anomalies :=
            [network_anomaly ''s1'' [make_reading (example_call ''s1'' (example_day + hours_us 1) 5)],
             network_anomaly ''s2'' [make_reading (example_call ''s2'' (example_day + hours_us 2) 7)]]\<rparr>)
          1 of
     Inl e \<Rightarrow> False
   | Inr s \<Rightarrow> most_recent s = Some (example_day + hours_us 2) \<and> total_anomalies s = 1"
  using summary_most_recent_is_first_in_window [where now = "example_day + hours_us 3"
      and hours = 1 and d = "isolated_detector\<lparr>detected_anomalies :=
            [network_anomaly ''s1'' [make_reading (example_call ''s1'' (example_day + hours_us 1) 5)],
             network_anomaly ''s2'' [make_reading (example_call ''s2'' (example_day + hours_us 2) 7)]]\<rparr>"]
  by (simp add: get_anomaly_summary_def timedelta_hours_def datetime_sub_def datetime_max_def
        summary_of_def recent_anomalies_def network_anomaly_def make_reading_def example_call_def
        example_day_def hours_us_def split: sum.splits)

end
